theory Spec2Isabelle
  imports Complex_Main
begin

section \<open>Values and strings of the runtime\<close>

text \<open>
  The program is JavaScript. The values it handles (bodies of HTTP responses, decoded
  JSON, the request body) are modelled by one datatype of runtime values. An object is an
  association list from property names to values. Numbers occur only as data that is
  tested for truthiness, so a rational carrier is enough.

  Strings are lists of characters; the operations the program uses on them
  (\<open>split\<close>, \<open>startsWith\<close>, \<open>substring\<close>, \<open>trim\<close>, \<open>includes\<close>, \<open>join\<close>)
  are written out below. Diagnostic logging has no effect on any result and is left out.
\<close>

datatype jsval =
    JUndefined
  | JNull
  | JBool bool
  | JNum rat
  | JStr string
  | JArr "jsval list"
  | JObj "(string \<times> jsval) list"

text \<open>An exception object; only its \<open>message\<close> is ever inspected.\<close>

datatype error = Error (error_message: string)

text \<open>The truthiness test of \<open>if (v)\<close>, \<open>!v\<close> and \<open>a && b\<close>.\<close>

fun truthy :: "jsval \<Rightarrow> bool" where
  "truthy JUndefined = False"
| "truthy JNull = False"
| "truthy (JBool b) = b"
| "truthy (JNum r) = (r \<noteq> 0)"
| "truthy (JStr s) = (s \<noteq> [])"
| "truthy (JArr xs) = True"
| "truthy (JObj kvs) = True"

text \<open>
  Reading a property \<open>v.k\<close>, also by destructuring. On \<open>null\<close> and \<open>undefined\<close> the
  runtime throws a TypeError, whose message names the property; its exact wording is the
  engine's. The program reads only the properties \<open>message\<close>, \<open>result\<close>, \<open>content\<close>,
  \<open>type\<close> and \<open>text\<close>, none of which a string, number, boolean or array has, so there
  the read gives \<open>undefined\<close>.
\<close>

definition type_error :: "string \<Rightarrow> error" where
  "type_error k = Error (''Cannot read properties of null or undefined (reading '' @ k @ '')'')"

fun get_prop :: "jsval \<Rightarrow> string \<Rightarrow> error + jsval" where
  "get_prop JUndefined k = Inl (type_error k)"
| "get_prop JNull k = Inl (type_error k)"
| "get_prop (JObj kvs) k = Inr (case map_of kvs k of Some v \<Rightarrow> v | None \<Rightarrow> JUndefined)"
| "get_prop v k = Inr JUndefined"

text \<open>\<open>line.startsWith(p)\<close>, \<open>s.includes(p)\<close>, \<open>s.split(c)\<close>, \<open>xs.join(sep)\<close>.\<close>

definition startsWith :: "string \<Rightarrow> string \<Rightarrow> bool" where
  "startsWith s p \<longleftrightarrow> take (length p) s = p"

fun includes_str :: "string \<Rightarrow> string \<Rightarrow> bool" where
  "includes_str [] p = (p = [])"
| "includes_str (c # cs) p = (startsWith (c # cs) p \<or> includes_str cs p)"

fun split_str :: "char \<Rightarrow> string \<Rightarrow> string list" where
  "split_str d [] = [[]]"
| "split_str d (c # cs) =
     (if c = d then [] # split_str d cs
      else (case split_str d cs of [] \<Rightarrow> [[c]] | l # ls \<Rightarrow> (c # l) # ls))"

fun join :: "string \<Rightarrow> string list \<Rightarrow> string" where
  "join sep [] = []"
| "join sep [x] = x"
| "join sep (x # y # ys) = x @ sep @ join sep (y # ys)"

abbreviation NL :: char where
  "NL \<equiv> CHR 0x0A"

text \<open>
  The white space of \<open>trim()\<close> and of the pattern \<open>\s\<close>: tab, line feed, vertical tab,
  form feed, carriage return, space and the no-break space (the white space among the
  first 256 code points).
\<close>

definition is_space :: "char \<Rightarrow> bool" where
  "is_space c \<longleftrightarrow> c \<in> set [CHR 0x09, CHR 0x0A, CHR 0x0B, CHR 0x0C, CHR 0x0D, CHR 0x20, CHR 0xA0]"

definition trim :: "string \<Rightarrow> string" where
  "trim s = rev (dropWhile is_space (rev (dropWhile is_space s)))"

section \<open>The outside world\<close>

text \<open>
  The program calls the JSON codec of the runtime, the documentation-search service
  (\<open>axios.post\<close>), arbitrary documentation URLs (\<open>axios.get\<close>) and the language-model
  service (\<open>chat.completions.create\<close>). Each outbound call is recorded in a log, and
  the answer of the outside world to a call may depend on every call made before it, so
  one environment describes one possible run, whatever the services do.
\<close>

record rpc_envelope =
  jsonrpc :: string
  rpc_method :: string
  params :: jsval
  rpc_id :: nat

record chat_request =
  model :: string
  system_content :: string
  user_content :: jsval
  temperature :: rat
  max_tokens :: nat

datatype choice = Choice (message_content: "string option")

datatype completion = Completion (choices: "choice list option")

datatype call =
    CallPost rpc_envelope
  | CallGet jsval
  | CallChat chat_request

record env =
  json_parse :: "string \<Rightarrow> error + jsval"
  json_stringify :: "jsval \<Rightarrow> string"
  to_string :: "jsval \<Rightarrow> string"
  http_post :: "call list \<Rightarrow> rpc_envelope \<Rightarrow> error + jsval"
  http_get :: "call list \<Rightarrow> jsval \<Rightarrow> error + jsval"
  chat_create :: "call list \<Rightarrow> chat_request \<Rightarrow> error + completion"

text \<open>
  The string a value becomes inside a template literal or \<open>join\<close>. Strings are
  themselves; what the runtime prints for numbers, arrays and objects is the
  environment's \<open>to_string\<close>.
\<close>

fun js_to_string :: "env \<Rightarrow> jsval \<Rightarrow> string" where
  "js_to_string E (JStr s) = s"
| "js_to_string E JUndefined = ''undefined''"
| "js_to_string E JNull = ''null''"
| "js_to_string E (JBool b) = (if b then ''true'' else ''false'')"
| "js_to_string E v = to_string E v"

section \<open>Streaming-RPC decoder: \<open>parseSSEResponse\<close>\<close>

text \<open>
  The loop over the lines. A line with the marker whose payload fails to parse is logged
  in the \<open>catch\<close> block, which does not return: the loop goes on to the next line.
\<close>

fun sse_lines :: "env \<Rightarrow> string list \<Rightarrow> jsval" where
  "sse_lines E [] = JNull"
| "sse_lines E (line # rest) =
     (if startsWith line ''data: '' then
        (case json_parse E (drop 6 line) of
           Inr v \<Rightarrow> v
         | Inl e \<Rightarrow> sse_lines E rest)
      else sse_lines E rest)"

definition parseSSEResponse :: "env \<Rightarrow> jsval \<Rightarrow> jsval" where
  "parseSSEResponse E sseData =
     (case sseData of
        JStr s \<Rightarrow> if s = [] then JNull else sse_lines E (split_str NL s)
      | _ \<Rightarrow> JNull)"

section \<open>Documentation-search client: \<open>searchCerebrasDocs\<close>\<close>

definition init_request :: rpc_envelope where
  "init_request =
     \<lparr>jsonrpc = ''2.0'', rpc_method = ''initialize'',
      params = JObj [(''protocolVersion'', JStr ''2024-11-05''),
                     (''capabilities'', JObj []),
                     (''clientInfo'', JObj [(''name'', JStr ''cerebras-docs-chatbot''),
                                            (''version'', JStr ''1.0.0'')])],
      rpc_id = 1\<rparr>"

definition tools_request :: rpc_envelope where
  "tools_request =
     \<lparr>jsonrpc = ''2.0'', rpc_method = ''tools/list'', params = JObj [], rpc_id = 2\<rparr>"

definition search_request :: "jsval \<Rightarrow> rpc_envelope" where
  "search_request query =
     \<lparr>jsonrpc = ''2.0'', rpc_method = ''tools/call'',
      params = JObj [(''name'', JStr ''search''), (''arguments'', JObj [(''query'', query)])],
      rpc_id = 3\<rparr>"

definition sentinel :: string where
  "sentinel = ''No relevant documentation found for your query.''"

definition text_separator :: string where
  "text_separator = [NL, NL] @ ''---'' @ [NL, NL]"

text \<open>
  \<open>contents.filter(item => item.type === 'text' && item.text)\<close>: reading \<open>type\<close> of
  a \<open>null\<close> entry throws, which ends the whole call in its \<open>catch\<close>.
\<close>

fun filter_text :: "jsval list \<Rightarrow> error + jsval list" where
  "filter_text [] = Inr []"
| "filter_text (item # rest) =
     (case get_prop item ''type'' of
        Inl e \<Rightarrow> Inl e
      | Inr ty \<Rightarrow>
          (case (if ty = JStr ''text'' then get_prop item ''text'' else Inr (JBool False)) of
             Inl e \<Rightarrow> Inl e
           | Inr keep \<Rightarrow>
               (case filter_text rest of
                  Inl e \<Rightarrow> Inl e
                | Inr kept \<Rightarrow> Inr (if truthy keep then item # kept else kept))))"

text \<open>\<open>.map(item => item.text)\<close> on the entries that passed the filter.\<close>

definition item_text :: "jsval \<Rightarrow> jsval" where
  "item_text item = (case get_prop item ''text'' of Inr v \<Rightarrow> v | Inl e \<Rightarrow> JUndefined)"

text \<open>
  What the client makes of the decoded answer to the query: the joined texts when
  \<open>result.content\<close> is an array, the sentinel otherwise, and \<open>null\<close> (\<open>None\<close>) when
  an exception reaches the \<open>catch\<close>.
\<close>

definition search_text :: "env \<Rightarrow> jsval \<Rightarrow> string option" where
  "search_text E searchData =
     (if \<not> truthy searchData then Some sentinel
      else case get_prop searchData ''result'' of
        Inl e \<Rightarrow> None
      | Inr result \<Rightarrow>
          if \<not> truthy result then Some sentinel
          else case get_prop result ''content'' of
            Inl e \<Rightarrow> None
          | Inr contents \<Rightarrow>
              if \<not> truthy contents then Some sentinel
              else case contents of
                JArr items \<Rightarrow>
                  (case filter_text items of
                     Inl e \<Rightarrow> None
                   | Inr kept \<Rightarrow>
                       Some (join text_separator (map (\<lambda>item. js_to_string E (item_text item)) kept)))
              | _ \<Rightarrow> Some sentinel)"

text \<open>
  The three protocol calls in order. The decoded answers of the handshake and of the
  tool listing are only logged. An exception of any call is caught and gives \<open>null\<close>.
\<close>

definition searchCerebrasDocs :: "env \<Rightarrow> jsval \<Rightarrow> call list \<Rightarrow> string option \<times> call list" where
  "searchCerebrasDocs E query tr =
     (let tr1 = tr @ [CallPost init_request];
          tr2 = tr1 @ [CallPost tools_request];
          tr3 = tr2 @ [CallPost (search_request query)]
      in case http_post E tr init_request of
        Inl e \<Rightarrow> (None, tr1)
      | Inr initData \<Rightarrow>
          (case http_post E tr1 tools_request of
             Inl e \<Rightarrow> (None, tr2)
           | Inr toolsData \<Rightarrow>
               (case http_post E tr2 (search_request query) of
                  Inl e \<Rightarrow> (None, tr3)
                | Inr searchResponse \<Rightarrow> (search_text E (parseSSEResponse E searchResponse), tr3))))"

section \<open>Result-relevance selector: \<open>analyzeSearchResults\<close>\<close>

record search_item =
  title :: "string option"
  link :: "string option"
  content :: "string option"

text \<open>The test \<open>if (currentItem.title)\<close>: the title is set and is not the empty string.\<close>

definition has_title :: "search_item \<Rightarrow> bool" where
  "has_title item \<longleftrightarrow> (case title item of Some t \<Rightarrow> t \<noteq> [] | None \<Rightarrow> False)"

definition empty_item :: search_item where
  "empty_item = \<lparr>title = None, link = None, content = None\<rparr>"

text \<open>
  The scan of the lines with \<open>currentItem\<close> and \<open>searchItems\<close>; the last equation is
  the push after the loop.
\<close>

fun scan_items :: "string list \<Rightarrow> search_item \<Rightarrow> search_item list \<Rightarrow> search_item list" where
  "scan_items [] currentItem searchItems =
     (if has_title currentItem then searchItems @ [currentItem] else searchItems)"
| "scan_items (line # rest) currentItem searchItems =
     (if startsWith line ''Title:'' then
        scan_items rest \<lparr>title = Some (trim (drop 6 line)), link = None, content = None\<rparr>
          (if has_title currentItem then searchItems @ [currentItem] else searchItems)
      else if startsWith line ''Link:'' then
        scan_items rest (currentItem\<lparr>link := Some (trim (drop 5 line))\<rparr>) searchItems
      else if startsWith line ''Content:'' then
        scan_items rest (currentItem\<lparr>content := Some (trim (drop 8 line))\<rparr>) searchItems
      else scan_items rest currentItem searchItems)"

definition parse_items :: "string \<Rightarrow> search_item list" where
  "parse_items searchResults = scan_items (split_str NL searchResults) empty_item []"

text \<open>The prompt of the selection call, with the parsed items numbered from 1.\<close>

fun show_nat :: "nat \<Rightarrow> string" where
  "show_nat n =
     (if n < 10 then [''0123456789'' ! n]
      else show_nat (n div 10) @ [''0123456789'' ! (n mod 10)])"

definition opt_string :: "string option \<Rightarrow> string" where
  "opt_string v = (case v of Some s \<Rightarrow> s | None \<Rightarrow> ''undefined'')"

fun item_entries :: "nat \<Rightarrow> search_item list \<Rightarrow> string list" where
  "item_entries i [] = []"
| "item_entries i (item # rest) =
     ([NL] @ show_nat (i + 1) @ ''. Title: '' @ opt_string (title item) @ [NL]
        @ ''   URL: '' @ opt_string (link item) @ [NL]
        @ ''   Summary: '' @ opt_string (content item) @ [NL])
     # item_entries (i + 1) rest"

definition analysisPrompt :: "env \<Rightarrow> jsval \<Rightarrow> search_item list \<Rightarrow> string" where
  \<open>analysisPrompt E userQuery searchItems =
     ''Based on the user's question and the search results below, identify which documentation pages would be most relevant to fetch in full. Return ONLY a JSON array of URLs (maximum 3) that would best help answer the question.''
     @ [NL, NL] @ ''User Question: "'' @ js_to_string E userQuery @ ''"''
     @ [NL, NL] @ ''Search Results:'' @ [NL] @ join [NL] (item_entries 0 searchItems)
     @ [NL, NL] @ ''Return ONLY a JSON array of URLs, like: ["url1", "url2"]''
     @ [NL] @ ''If none are relevant enough to fetch, return: []''\<close>

definition analysis_request :: "env \<Rightarrow> jsval \<Rightarrow> string \<Rightarrow> chat_request" where
  "analysis_request E userQuery searchResults =
     \<lparr>model = ''qwen-3-235b-a22b-instruct-2507'',
      system_content = ''You are a helpful assistant that analyzes search results. Return only valid JSON arrays.'',
      user_content = JStr (analysisPrompt E userQuery (parse_items searchResults)),
      temperature = 3 / 10,
      max_tokens = 200\<rparr>"

text \<open>
  \<open>urlsText.match(/\[.*\]/s)\<close>: with the flag \<open>s\<close> the dot matches every character, and
  the star is greedy, so the match runs from the first opening bracket to the last
  closing bracket after it; there is no match when no closing bracket follows the first
  opening one.
\<close>

definition bracket_match :: "string \<Rightarrow> string option" where
  "bracket_match urlsText =
     (case dropWhile (\<lambda>c. c \<noteq> CHR ''['') urlsText of
        [] \<Rightarrow> None
      | b # t \<Rightarrow>
          if CHR '']'' \<in> set t
          then Some (b # rev (dropWhile (\<lambda>c. c \<noteq> CHR '']'') (rev t)))
          else None)"

text \<open>The inner \<open>try\<close> block: a failed parse is caught and falls through to \<open>return []\<close>.\<close>

definition select_urls :: "env \<Rightarrow> string \<Rightarrow> jsval list" where
  "select_urls E urlsText =
     (case bracket_match urlsText of
        None \<Rightarrow> []
      | Some jsonMatch \<Rightarrow>
          (case json_parse E jsonMatch of
             Inl e \<Rightarrow> []
           | Inr urls \<Rightarrow> (case urls of JArr xs \<Rightarrow> take 3 xs | _ \<Rightarrow> [])))"

text \<open>
  \<open>analysisResponse.choices[0].message.content.trim()\<close>: a missing \<open>choices\<close>, an empty
  one and a \<open>null\<close> content all throw a TypeError, which the outer \<open>catch\<close> turns into
  the empty selection, as it does with an error of the model call.
\<close>

definition analyzeSearchResults ::
  "env \<Rightarrow> jsval \<Rightarrow> string \<Rightarrow> call list \<Rightarrow> jsval list \<times> call list" where
  "analyzeSearchResults E userQuery searchResults tr =
     (let req = analysis_request E userQuery searchResults;
          tr1 = tr @ [CallChat req]
      in case chat_create E tr req of
        Inl e \<Rightarrow> ([], tr1)
      | Inr analysisResponse \<Rightarrow>
          (case choices analysisResponse of
             None \<Rightarrow> ([], tr1)
           | Some [] \<Rightarrow> ([], tr1)
           | Some (c # cs) \<Rightarrow>
               (case message_content c of
                  None \<Rightarrow> ([], tr1)
                | Some text \<Rightarrow> (select_urls E (trim text), tr1))))"

section \<open>Content fetcher: \<open>fetchFullContent\<close>\<close>

text \<open>
  \<open>replace(/<[^>]*>/g, ' ')\<close>: an opening angle bracket with a closing one somewhere
  after it is replaced, up to the nearest closing one, by a space.
  \<open>replace(/\s+/g, ' ')\<close>: every run of white space becomes one space.
\<close>

function strip_tags :: "string \<Rightarrow> string" where
  "strip_tags [] = []"
| "strip_tags (c # cs) =
     (if c = CHR ''<'' \<and> CHR ''>'' \<in> set cs
      then CHR '' '' # strip_tags (tl (dropWhile (\<lambda>x. x \<noteq> CHR ''>'') cs))
      else c # strip_tags cs)"
  by pat_completeness auto
termination
proof (relation "measure length")
  fix c :: char and cs :: string
  have "length (tl (dropWhile (\<lambda>x. x \<noteq> CHR ''>'') cs)) \<le> length cs"
    using length_dropWhile_le [of "\<lambda>x. x \<noteq> CHR ''>''" cs] by simp
  then show "(tl (dropWhile (\<lambda>x. x \<noteq> CHR ''>'') cs), c # cs) \<in> measure length"
    by simp
qed simp_all

function collapse_spaces :: "string \<Rightarrow> string" where
  "collapse_spaces [] = []"
| "collapse_spaces (c # cs) =
     (if is_space c then CHR '' '' # collapse_spaces (dropWhile is_space cs)
      else c # collapse_spaces cs)"
  by pat_completeness auto
termination
proof (relation "measure length")
  fix c :: char and cs :: string
  show "(dropWhile is_space cs, c # cs) \<in> measure length"
    using length_dropWhile_le [of is_space cs] by simp
qed simp_all

definition page_text :: "env \<Rightarrow> jsval \<Rightarrow> string" where
  "page_text E data =
     take 10000 (case data of
                   JStr s \<Rightarrow> collapse_spaces (strip_tags s)
                 | _ \<Rightarrow> json_stringify E data)"

definition page_block :: "env \<Rightarrow> jsval \<Rightarrow> jsval \<Rightarrow> string" where
  "page_block E url data =
     [NL, NL] @ ''=== Content from '' @ js_to_string E url @ '' ==='' @ [NL]
       @ page_text E data @ [NL]"

definition page_separator :: string where
  "page_separator = [NL] @ ''---'' @ [NL]"

text \<open>
  The loop over the URLs with the array \<open>contents\<close>. A failed request is caught inside
  the loop body; a response with a falsy body (an empty one) adds nothing.
\<close>

fun fetch_loop :: "env \<Rightarrow> jsval list \<Rightarrow> string list \<Rightarrow> call list \<Rightarrow> string list \<times> call list" where
  "fetch_loop E [] contents tr = (contents, tr)"
| "fetch_loop E (url # rest) contents tr =
     (case http_get E tr url of
        Inl fetchError \<Rightarrow> fetch_loop E rest contents (tr @ [CallGet url])
      | Inr data \<Rightarrow>
          fetch_loop E rest
            (if truthy data then contents @ [page_block E url data] else contents)
            (tr @ [CallGet url]))"

definition fetchFullContent :: "env \<Rightarrow> jsval list \<Rightarrow> call list \<Rightarrow> string option \<times> call list" where
  "fetchFullContent E urls tr =
     (case fetch_loop E urls [] tr of
        (contents, tr') \<Rightarrow>
          (if contents \<noteq> [] then Some (join page_separator contents) else None, tr'))"

section \<open>Answer composer: \<open>getCerebrasResponse\<close>\<close>

definition persona :: string where
  "persona = ''You are a helpful assistant that answers questions about the Cerebras Platform.''"

definition grounding :: "string \<Rightarrow> string" where
  "grounding context =
     [NL, NL] @ ''Use the following context from the official Cerebras documentation to answer the user's question accurately:''
       @ [NL, NL] @ context @ [NL, NL] @ ''Base your answer primarily on this documentation.''"

definition disclosure :: string where
  "disclosure =
     [NL, NL] @ ''Note: I couldn't access the MCP server at this moment. Please inform the user that the documentation server is unavailable and you cannot provide specific information from the docs.''"

text \<open>The test \<open>if (context && context !== null)\<close>: a string that is not empty.\<close>

definition systemPrompt :: "string option \<Rightarrow> string" where
  "systemPrompt context =
     persona @ (case context of
                  Some c \<Rightarrow> if c \<noteq> [] then grounding c else disclosure
                | None \<Rightarrow> disclosure)"

definition compose_request :: "jsval \<Rightarrow> string option \<Rightarrow> chat_request" where
  "compose_request message context =
     \<lparr>model = ''qwen-3-235b-a22b-instruct-2507'',
      system_content = systemPrompt context,
      user_content = message,
      temperature = 7 / 10,
      max_tokens = 1000\<rparr>"

definition invalid_response :: error where
  "invalid_response = Error ''Invalid response from Cerebras API''"

text \<open>
  The result is the content of the first choice (a string or \<open>null\<close>). An error of the
  model call is rethrown by the \<open>catch\<close> block, and so is the error for a completion
  without a first choice.
\<close>

definition getCerebrasResponse ::
  "env \<Rightarrow> jsval \<Rightarrow> string option \<Rightarrow> call list \<Rightarrow> (error + string option) \<times> call list" where
  "getCerebrasResponse E message context tr =
     (let req = compose_request message context;
          tr1 = tr @ [CallChat req]
      in case chat_create E tr req of
        Inl e \<Rightarrow> (Inl e, tr1)
      | Inr chatCompletion \<Rightarrow>
          (case choices chatCompletion of
             Some (c # cs) \<Rightarrow> (Inr (message_content c), tr1)
           | _ \<Rightarrow> (Inl invalid_response, tr1)))"

section \<open>The two entry points\<close>

record express_response =
  status :: nat
  sent :: string

text \<open>The \<open>catch\<close> block of both handlers: the text is chosen by the first test that holds.\<close>

definition errorMessage :: "error \<Rightarrow> string" where
  "errorMessage e =
     ''I apologize, but I encountered an error. '' @
     (if error_message e \<noteq> [] \<and> includes_str (error_message e) ''401''
        then ''Please check that your Cerebras API key is valid.''
      else if error_message e \<noteq> [] \<and> includes_str (error_message e) ''model''
        then ''There might be an issue with the model selection.''
      else ''Please try again later or check the server logs for more details.'')"

definition error_body :: "error \<Rightarrow> jsval" where
  "error_body e =
     JObj [(''error'', JStr ''Failed to process request''), (''response'', JStr (errorMessage e))]"

definition answer_body :: "string option \<Rightarrow> jsval" where
  "answer_body r = JObj [(''response'', (case r of Some s \<Rightarrow> JStr s | None \<Rightarrow> JNull))]"

definition required_body :: jsval where
  "required_body = JObj [(''error'', JStr ''Message is required'')]"

subsection \<open>The long-lived server: \<open>app.post('/chat')\<close>\<close>

text \<open>
  \<open>res.json(v)\<close> sends \<open>JSON.stringify(v)\<close> with status 200 unless \<open>res.status\<close> was
  called before. The argument is \<open>req.body\<close> as the JSON middleware left it.
\<close>

definition chat :: "env \<Rightarrow> jsval \<Rightarrow> call list \<Rightarrow> express_response \<times> call list" where
  "chat E req_body tr =
     (case get_prop req_body ''message'' of
        Inl e \<Rightarrow> (\<lparr>status = 500, sent = json_stringify E (error_body e)\<rparr>, tr)
      | Inr msg \<Rightarrow>
          if \<not> truthy msg then (\<lparr>status = 400, sent = json_stringify E required_body\<rparr>, tr)
          else
            (case searchCerebrasDocs E msg tr of
               (searchResults, tr1) \<Rightarrow>
                 if searchResults = None \<or> searchResults = Some [] then
                   (case getCerebrasResponse E msg None tr1 of
                      (Inl e, tr2) \<Rightarrow> (\<lparr>status = 500, sent = json_stringify E (error_body e)\<rparr>, tr2)
                    | (Inr r, tr2) \<Rightarrow> (\<lparr>status = 200, sent = json_stringify E (answer_body r)\<rparr>, tr2))
                 else
                   (case analyzeSearchResults E msg (the searchResults) tr1 of
                      (relevantUrls, tr2) \<Rightarrow>
                        (case (if relevantUrls \<noteq> [] then
                                 (case fetchFullContent E relevantUrls tr2 of
                                    (fullContent, tr3) \<Rightarrow>
                                      (if fullContent \<noteq> None \<and> fullContent \<noteq> Some []
                                       then fullContent else searchResults, tr3))
                               else (searchResults, tr2)) of
                           (fullContext, tr3) \<Rightarrow>
                             (case getCerebrasResponse E msg fullContext tr3 of
                                (Inl e, tr4) \<Rightarrow>
                                  (\<lparr>status = 500, sent = json_stringify E (error_body e)\<rparr>, tr4)
                              | (Inr r, tr4) \<Rightarrow>
                                  (\<lparr>status = 200, sent = json_stringify E (answer_body r)\<rparr>, tr4))))))"

text \<open>
  The application around the handler. \<open>app.use(cors())\<close> installs the middleware of the
  \<open>cors\<close> package with its default options in front of every route: it answers a
  request of method \<open>OPTIONS\<close> itself, with status 204 and an empty body, and passes
  every other request on. Of the routes only the chat route is described; for any other
  request (the health check, an unknown path) the model gives \<open>None\<close>.
\<close>

record request =
  req_method :: string
  req_path :: string
  req_body :: jsval

definition cors_preflight :: express_response where
  "cors_preflight = \<lparr>status = 204, sent = []\<rparr>"

definition app :: "env \<Rightarrow> request \<Rightarrow> call list \<Rightarrow> (express_response \<times> call list) option" where
  "app E req tr =
     (if req_method req = ''OPTIONS'' then Some (cors_preflight, tr)
      else if req_method req = ''POST'' \<and> req_path req = ''/chat''
        then Some (chat E (req_body req) tr)
      else None)"

subsection \<open>The serverless function: \<open>exports.handler\<close>\<close>

record event =
  httpMethod :: string
  event_body :: "string option"

record netlify_response =
  statusCode :: nat
  headers :: "(string \<times> string) list"
  body :: string

definition allow_origin :: "string \<times> string" where
  "allow_origin = (''Access-Control-Allow-Origin'', ''*'')"

definition json_type :: "string \<times> string" where
  "json_type = (''Content-Type'', ''application/json'')"

definition failure :: "env \<Rightarrow> error \<Rightarrow> netlify_response" where
  "failure E e =
     \<lparr>statusCode = 500, headers = [allow_origin, json_type],
      body = json_stringify E (error_body e)\<rparr>"

definition success :: "env \<Rightarrow> string option \<Rightarrow> netlify_response" where
  "success E r =
     \<lparr>statusCode = 200, headers = [allow_origin, json_type],
      body = json_stringify E (answer_body r)\<rparr>"

text \<open>
  \<open>JSON.parse(event.body)\<close> is inside the \<open>try\<close> block: a body that does not parse, and
  a parsed body that is \<open>null\<close>, end in the \<open>catch\<close> block. A missing body is \<open>null\<close>,
  which \<open>JSON.parse\<close> reads as the text \<open>null\<close>.
\<close>

definition handler :: "env \<Rightarrow> event \<Rightarrow> call list \<Rightarrow> netlify_response \<times> call list" where
  "handler E event tr =
     (if httpMethod event = ''OPTIONS'' then
        (\<lparr>statusCode = 200,
          headers = [allow_origin,
                     (''Access-Control-Allow-Headers'', ''Content-Type''),
                     (''Access-Control-Allow-Methods'', ''POST, OPTIONS'')],
          body = []\<rparr>, tr)
      else if httpMethod event \<noteq> ''POST'' then
        (\<lparr>statusCode = 405, headers = [allow_origin],
          body = json_stringify E (JObj [(''error'', JStr ''Method not allowed'')])\<rparr>, tr)
      else
        (case json_parse E (case event_body event of Some b \<Rightarrow> b | None \<Rightarrow> ''null'') of
           Inl e \<Rightarrow> (failure E e, tr)
         | Inr parsed \<Rightarrow>
             (case get_prop parsed ''message'' of
                Inl e \<Rightarrow> (failure E e, tr)
              | Inr msg \<Rightarrow>
                  if \<not> truthy msg then
                    (\<lparr>statusCode = 400, headers = [allow_origin],
                      body = json_stringify E required_body\<rparr>, tr)
                  else
                    (case searchCerebrasDocs E msg tr of
                       (searchResults, tr1) \<Rightarrow>
                         if searchResults = None \<or> searchResults = Some [] then
                           (case getCerebrasResponse E msg None tr1 of
                              (Inl e, tr2) \<Rightarrow> (failure E e, tr2)
                            | (Inr r, tr2) \<Rightarrow> (success E r, tr2))
                         else
                           (case analyzeSearchResults E msg (the searchResults) tr1 of
                              (relevantUrls, tr2) \<Rightarrow>
                                (case (if relevantUrls \<noteq> [] then
                                         (case fetchFullContent E relevantUrls tr2 of
                                            (fullContent, tr3) \<Rightarrow>
                                              (if fullContent \<noteq> None \<and> fullContent \<noteq> Some []
                                               then fullContent else searchResults, tr3))
                                       else (searchResults, tr2)) of
                                   (fullContext, tr3) \<Rightarrow>
                                     (case getCerebrasResponse E msg fullContext tr3 of
                                        (Inl e, tr4) \<Rightarrow> (failure E e, tr4)
                                      | (Inr r, tr4) \<Rightarrow> (success E r, tr4))))))))"

section \<open>Specification-side notions\<close>

subsection \<open>Decoder\<close>

text \<open>
  A line decodes when it carries the marker and its payload parses; \<open>payload\<close> is the
  parsed payload of a line, \<open>null\<close> when it does not parse.
\<close>

definition decodes :: "env \<Rightarrow> string \<Rightarrow> bool" where
  "decodes E line \<longleftrightarrow>
     startsWith line ''data: '' \<and> (case json_parse E (drop 6 line) of Inr v \<Rightarrow> True | Inl e \<Rightarrow> False)"

definition payload :: "env \<Rightarrow> string \<Rightarrow> jsval" where
  "payload E line = (case json_parse E (drop 6 line) of Inr v \<Rightarrow> v | Inl e \<Rightarrow> JNull)"

text \<open>
  The decoder as the specification words it: the payload of the first line with the
  marker, absent when that line does not parse, whatever comes later.
\<close>

definition first_marked_payload :: "env \<Rightarrow> string \<Rightarrow> jsval" where
  "first_marked_payload E s =
     (case filter (\<lambda>line. startsWith line ''data: '') (split_str NL s) of
        [] \<Rightarrow> JNull
      | line # later \<Rightarrow> payload E line)"

subsection \<open>Selector\<close>

text \<open>
  The scan as the specification words it: a state of the current accumulator and the
  committed list, one step per line, and a flush at the end of the input.
\<close>

definition flush :: "search_item \<times> search_item list \<Rightarrow> search_item list" where
  "flush st = (case st of (current, committed) \<Rightarrow>
                 if has_title current then committed @ [current] else committed)"

definition item_step :: "search_item \<times> search_item list \<Rightarrow> string \<Rightarrow> search_item \<times> search_item list" where
  "item_step st line =
     (case st of (current, committed) \<Rightarrow>
        if startsWith line ''Title:''
          then (\<lparr>title = Some (trim (drop 6 line)), link = None, content = None\<rparr>,
                flush (current, committed))
        else if startsWith line ''Link:''
          then (current\<lparr>link := Some (trim (drop 5 line))\<rparr>, committed)
        else if startsWith line ''Content:''
          then (current\<lparr>content := Some (trim (drop 8 line))\<rparr>, committed)
        else (current, committed))"

text \<open>The trimmed titles of the \<open>Title:\<close> lines that are not empty, in order.\<close>

definition title_lines :: "string list \<Rightarrow> string list" where
  "title_lines ls =
     filter (\<lambda>t. t \<noteq> []) (map (\<lambda>line. trim (drop 6 line)) (filter (\<lambda>line. startsWith line ''Title:'') ls))"

fun is_array :: "jsval \<Rightarrow> bool" where
  "is_array (JArr xs) = True"
| "is_array v = False"

subsection \<open>Search client\<close>

text \<open>
  The value at \<open>result.content\<close> of a decoded answer, \<open>undefined\<close> when the answer or
  its \<open>result\<close> is missing. The answer has the expected shape when this is an array.
\<close>

definition result_content :: "jsval \<Rightarrow> jsval" where
  "result_content searchData =
     (case get_prop searchData ''result'' of
        Inl e \<Rightarrow> JUndefined
      | Inr result \<Rightarrow> (case get_prop result ''content'' of Inl e \<Rightarrow> JUndefined | Inr c \<Rightarrow> c))"

subsection \<open>Fetcher\<close>

text \<open>
  What one URL contributes when it is requested after the calls \<open>tr\<close>: its wrapped
  text, or nothing when the request fails or the body is empty. \<open>pages\<close> lists the
  contributions of a batch: URL number \<open>i\<close> is requested after the \<open>i\<close> URLs before it.
\<close>

definition page :: "env \<Rightarrow> call list \<Rightarrow> jsval \<Rightarrow> string option" where
  "page E tr url =
     (case http_get E tr url of
        Inl e \<Rightarrow> None
      | Inr data \<Rightarrow> if truthy data then Some (page_block E url data) else None)"

definition pages :: "env \<Rightarrow> call list \<Rightarrow> jsval list \<Rightarrow> string list" where
  "pages E tr urls =
     List.map_filter (\<lambda>i. page E (tr @ map CallGet (take i urls)) (urls ! i)) [0..<length urls]"

subsection \<open>Orchestrator\<close>

text \<open>
  The context that the handlers pass to the composer for a message, with the log of the
  calls made up to that point: absent when the search gave nothing, the fetched text
  when pages were selected and fetched, the search text otherwise.
\<close>

definition final_context :: "env \<Rightarrow> jsval \<Rightarrow> call list \<Rightarrow> string option \<times> call list" where
  "final_context E msg tr =
     (case searchCerebrasDocs E msg tr of
        (searchResults, tr1) \<Rightarrow>
          if searchResults = None \<or> searchResults = Some [] then (None, tr1)
          else
            (case analyzeSearchResults E msg (the searchResults) tr1 of
               (relevantUrls, tr2) \<Rightarrow>
                 if relevantUrls \<noteq> [] then
                   (case fetchFullContent E relevantUrls tr2 of
                      (fullContent, tr3) \<Rightarrow>
                        (if fullContent \<noteq> None \<and> fullContent \<noteq> Some []
                         then fullContent else searchResults, tr3))
                 else (searchResults, tr2)))"

text \<open>What the long-lived handler sends for an outcome of the composer.\<close>

definition respond :: "env \<Rightarrow> (error + string option) \<times> call list \<Rightarrow> express_response \<times> call list" where
  "respond E outcome =
     (case outcome of
        (Inl e, t) \<Rightarrow> (\<lparr>status = 500, sent = json_stringify E (error_body e)\<rparr>, t)
      | (Inr r, t) \<Rightarrow> (\<lparr>status = 200, sent = json_stringify E (answer_body r)\<rparr>, t))"

text \<open>What the serverless handler returns for an outcome of the composer.\<close>

definition respond_netlify ::
  "env \<Rightarrow> (error + string option) \<times> call list \<Rightarrow> netlify_response \<times> call list" where
  "respond_netlify E outcome =
     (case outcome of (Inl e, t) \<Rightarrow> (failure E e, t) | (Inr r, t) \<Rightarrow> (success E r, t))"

text \<open>
  What a caller sees of a response, status and body, together with the calls the run
  made; and the same message arriving at either entry point.
\<close>

definition seen_express :: "express_response \<times> call list \<Rightarrow> nat \<times> string \<times> call list" where
  "seen_express x = (status (fst x), sent (fst x), snd x)"

definition seen_netlify :: "netlify_response \<times> call list \<Rightarrow> nat \<times> string \<times> call list" where
  "seen_netlify x = (statusCode (fst x), body (fst x), snd x)"

definition post_chat :: "jsval \<Rightarrow> request" where
  "post_chat v = \<lparr>req_method = ''POST'', req_path = ''/chat'', req_body = v\<rparr>"

definition post_event :: "string \<Rightarrow> event" where
  "post_event src = \<lparr>httpMethod = ''POST'', event_body = Some src\<rparr>"

subsection \<open>Sample runs\<close>

text \<open>
  Concrete environments for the sample runs below. First a result text with three
  \<open>Title:\<close> lines, the second with a blank title, and the same text as it is written
  inside a JSON string.
\<close>

definition results_text :: string where
  "results_text =
     ''Title: Intro'' @ [NL] @ ''Link: https://docs/intro'' @ [NL] @ ''Content: Start here''
       @ [NL] @ ''Title:  '' @ [NL] @ ''Link: https://docs/lost'' @ [NL] @ ''Title: API''"

definition results_json :: string where
  "results_json =
     ''Title: Intro'' @ [CHR 0x5C, CHR ''n''] @ ''Link: https://docs/intro'' @ [CHR 0x5C, CHR ''n'']
       @ ''Content: Start here'' @ [CHR 0x5C, CHR ''n''] @ ''Title:  '' @ [CHR 0x5C, CHR ''n'']
       @ ''Link: https://docs/lost'' @ [CHR 0x5C, CHR ''n''] @ ''Title: API''"

text \<open>
  The payloads of two answers of the search service, a reply of the model that selects
  one page, and a request body with its text.
\<close>

definition found_text :: string where
  \<open>found_text = ''{"result":{"content":[{"type":"text","text":"'' @ results_json @ ''"}]}}''\<close>

definition found_nothing :: string where
  \<open>found_nothing = ''{"result":{"content":[]}}''\<close>

definition picks_intro :: string where
  \<open>picks_intro = ''Fetch these: ["https://docs/intro"]''\<close>

definition hi :: jsval where
  "hi = JObj [(''message'', JStr ''hi'')]"

definition hi_text :: string where
  \<open>hi_text = ''{"message":"hi"}''\<close>

text \<open>
  A serialiser for the values that occur in the sample runs (numbers do not), and a codec
  that knows the texts above.
\<close>

fun render :: "jsval \<Rightarrow> string" where
  "render JUndefined = ''undefined''"
| "render JNull = ''null''"
| "render (JBool b) = (if b then ''true'' else ''false'')"
| "render (JNum r) = ''0''"
| "render (JStr s) = [CHR 0x22] @ s @ [CHR 0x22]"
| "render (JArr xs) = ''['' @ join '','' (map render xs) @ '']''"
| "render (JObj kvs) =
     ''{'' @ join '','' (map (\<lambda>(k, v). [CHR 0x22] @ k @ [CHR 0x22] @ '':'' @ render v) kvs) @ ''}''"

definition sample_texts :: "(string \<times> jsval) list" where
  \<open>sample_texts =
     [(''1'', JNum 1),
      (''{}'', JObj []),
      (''["https://docs/intro"]'', JArr [JStr ''https://docs/intro'']),
      (found_nothing, JObj [(''result'', JObj [(''content'', JArr [])])]),
      (found_text,
         JObj [(''result'', JObj [(''content'',
           JArr [JObj [(''type'', JStr ''text''), (''text'', JStr results_text)]])])]),
      (hi_text, hi)]\<close>

definition sample_parse :: "string \<Rightarrow> error + jsval" where
  "sample_parse s =
     (case map_of sample_texts s of Some v \<Rightarrow> Inr v | None \<Rightarrow> Inl (Error ''Unexpected token''))"

text \<open>
  Services that answer every call in the same way, whatever was called before: one that
  is down, a model that replies with a fixed selection and a fixed answer, a model that
  refuses every call, a search service that answers every call with an event stream
  (the query with the payload \<open>found\<close>, the two calls before it with an empty object),
  and documentation hosts, one that answers with an empty body and one that knows one
  page.
\<close>

definition world ::
  "(rpc_envelope \<Rightarrow> error + jsval) \<Rightarrow> (jsval \<Rightarrow> error + jsval) \<Rightarrow>
   (chat_request \<Rightarrow> error + completion) \<Rightarrow> env" where
  "world post get llm =
     \<lparr>json_parse = sample_parse, json_stringify = render, to_string = render,
      http_post = (\<lambda>tr. post), http_get = (\<lambda>tr. get), chat_create = (\<lambda>tr. llm)\<rparr>"

definition down :: "'a \<Rightarrow> error + 'b" where
  "down request = Inl (Error ''connect ECONNREFUSED'')"

definition replies :: "string \<Rightarrow> string \<Rightarrow> chat_request \<Rightarrow> error + completion" where
  "replies selection answer request =
     Inr (Completion (Some [Choice (Some (if max_tokens request = 200 then selection else answer))]))"

definition rejects :: "string \<Rightarrow> chat_request \<Rightarrow> error + completion" where
  "rejects reason request = Inl (Error reason)"

definition answers :: "string \<Rightarrow> rpc_envelope \<Rightarrow> error + jsval" where
  "answers found request =
     Inr (JStr (''event: message'' @ [NL] @ ''data: '' @ (if rpc_id request = 3 then found else ''{}'')))"

definition blank_page :: "jsval \<Rightarrow> error + jsval" where
  "blank_page url = Inr (JStr [])"

definition intro_page :: "jsval \<Rightarrow> error + jsval" where
  "intro_page url =
     (if url = JStr ''https://docs/intro'' then Inr (JStr ''<h1>Intro</h1>  <p>Start   here</p>'')
      else Inl (Error ''timeout of 5000ms exceeded''))"

section \<open>Facts for the sample runs\<close>

lemmas sample_codec =
  sample_parse_def sample_texts_def found_text_def found_nothing_def hi_text_def results_json_def

section \<open>The decoder returns the first payload that parses\<close>

lemma sse_lines_find:
  "sse_lines E ls = (case find (decodes E) ls of None \<Rightarrow> JNull | Some line \<Rightarrow> payload E line)"
  by (induction ls) (auto simp: decodes_def payload_def split: sum.splits)

lemma sse_lines_first:
  "filter (\<lambda>line. startsWith line ''data: '') ls = line # later \<Longrightarrow>
   json_parse E (drop 6 line) = Inr v \<Longrightarrow> sse_lines E ls = v"
  by (induction ls) (auto split: if_splits)

text \<open>
  Claim C2, as amended. For every input string the decoder returns the payload of the
  first line that begins with \<open>data: \<close> and whose remainder parses as JSON; lines with
  the marker whose JSON is malformed are skipped without raising, lines after the first
  one that parses are ignored, and the result is absent when no line with the marker
  parses. In particular, when the first line with the marker parses, its payload is the
  result.
\<close>

theorem C2_decoder_first_parsable:
  "parseSSEResponse E (JStr s) =
     (case find (decodes E) (split_str NL s) of None \<Rightarrow> JNull | Some line \<Rightarrow> payload E line)
   \<and> (\<forall>line later v.
         filter (\<lambda>l. startsWith l ''data: '') (split_str NL s) = line # later
           \<and> json_parse E (drop 6 line) = Inr v
         \<longrightarrow> parseSSEResponse E (JStr s) = v)"
proof (cases "s = []")
  case True
  then show ?thesis
    by (simp add: parseSSEResponse_def decodes_def startsWith_def)
next
  case False
  then show ?thesis
    by (auto simp: parseSSEResponse_def sse_lines_find [symmetric] dest: sse_lines_first)
qed

text \<open>
  Claim C2 as stated fails: the first line with the marker is malformed, and the decoder
  returns the payload of the second one instead of absent.
\<close>

theorem C2_counterexample:
  "parseSSEResponse (world down down down) (JStr (''data: {'' @ [NL] @ ''data: 1'')) = JNum 1
   \<and> first_marked_payload (world down down down) (''data: {'' @ [NL] @ ''data: 1'') = JNull"
  by (simp add: parseSSEResponse_def first_marked_payload_def payload_def world_def
      sample_codec startsWith_def)

text \<open>The amended statement at a stream of three lines.\<close>

theorem C2_witness:
  "filter (\<lambda>l. startsWith l ''data: '')
      (split_str NL (''id: 7'' @ [NL] @ ''data: 1'' @ [NL] @ ''data: 1''))
     = [''data: 1'', ''data: 1'']
   \<and> json_parse (world down down down) (drop 6 ''data: 1'') = Inr (JNum 1)
   \<and> parseSSEResponse (world down down down)
         (JStr (''id: 7'' @ [NL] @ ''data: 1'' @ [NL] @ ''data: 1'')) = JNum 1"
proof -
  let ?s = "''id: 7'' @ [NL] @ ''data: 1'' @ [NL] @ ''data: 1''"
  have f: "filter (\<lambda>l. startsWith l ''data: '') (split_str NL ?s) = [''data: 1'', ''data: 1'']"
    by (simp add: startsWith_def)
  have p: "json_parse (world down down down) (drop 6 ''data: 1'') = Inr (JNum 1)"
    by (simp add: world_def sample_codec)
  from C2_decoder_first_parsable [of "world down down down" ?s] f p
  show ?thesis by blast
qed

section \<open>The scan of the search results\<close>

lemma scan_items_fold:
  "scan_items ls current committed = flush (foldl item_step (current, committed) ls)"
  by (induction ls arbitrary: current committed) (simp_all add: flush_def item_step_def)

lemma scan_items_has_title:
  "\<forall>item \<in> set committed. has_title item \<Longrightarrow>
   \<forall>item \<in> set (scan_items ls current committed). has_title item"
proof (induction ls arbitrary: current committed)
  case Nil
  then show ?case by simp
next
  case (Cons line rest)
  have step: "\<forall>item \<in> set (if has_title current then committed @ [current] else committed).
          has_title item"
    using Cons.prems by simp
  show ?case
  proof (cases "startsWith line ''Title:''")
    case True
    have "scan_items (line # rest) current committed = scan_items rest \<lparr>title = Some (trim (drop 6 line)), link = None, content = None\<rparr>
          (if has_title current then committed @ [current] else committed)"
      using True by (simp only: scan_items.simps if_True)
    then show ?thesis using Cons.IH [OF step] by (simp only:)
  next
    case False
    have "\<And>c. \<forall>item \<in> set (scan_items rest c committed). has_title item"
      using Cons.IH [OF Cons.prems] .
    with False show ?thesis by (simp only: scan_items.simps if_False split: if_split) blast
  qed
qed

lemma has_title_fresh:
  "has_title \<lparr>title = Some t, link = l, content = c\<rparr> \<longleftrightarrow> t \<noteq> []"
  by (simp add: has_title_def)

lemma has_title_update:
  "has_title (item\<lparr>link := l\<rparr>) = has_title item"
  "has_title (item\<lparr>content := c\<rparr>) = has_title item"
  by (simp_all add: has_title_def)

lemma scan_items_titles:
  "map title (scan_items ls current committed) =
     map title committed @ (if has_title current then [title current] else [])
       @ map Some (title_lines ls)"
proof (induction ls arbitrary: current committed)
  case Nil
  then show ?case by (simp add: title_lines_def)
next
  case (Cons line rest)
  show ?case
    by (simp add: Cons.IH has_title_fresh has_title_update title_lines_def)
qed

text \<open>
  Claim C7. Parsing the result text into items is one scan over its lines with one
  accumulator: a \<open>Title:\<close> line pushes the previous accumulator exactly when it has a
  title (set and not empty) and starts a fresh accumulator with the trimmed title,
  \<open>Link:\<close> and \<open>Content:\<close> lines set their field on the current accumulator, and
  after the last line the final accumulator is pushed when it has a title. Hence every
  item of the result has a title, and the titles of the result are the trimmed,
  non-empty titles of the \<open>Title:\<close> lines, in order.
\<close>

theorem C7_scan_is_accumulate_and_flush:
  "parse_items text = flush (foldl item_step (empty_item, []) (split_str NL text))
   \<and> (\<forall>item \<in> set (parse_items text). has_title item)
   \<and> map title (parse_items text) = map Some (title_lines (split_str NL text))"
proof (intro conjI)
  show "parse_items text = flush (foldl item_step (empty_item, []) (split_str NL text))"
    by (simp add: parse_items_def scan_items_fold)
  show "\<forall>item \<in> set (parse_items text). has_title item"
    unfolding parse_items_def by (rule scan_items_has_title) simp
  show "map title (parse_items text) = map Some (title_lines (split_str NL text))"
    by (simp add: parse_items_def scan_items_titles empty_item_def has_title_def)
qed

text \<open>The sample text gives two items; the accumulator with the blank title is dropped.\<close>

theorem C7_witness:
  "parse_items results_text =
     [\<lparr>title = Some ''Intro'', link = Some ''https://docs/intro'', content = Some ''Start here''\<rparr>,
      \<lparr>title = Some ''API'', link = None, content = None\<rparr>]
   \<and> has_title \<lparr>title = Some ''API'', link = None, content = None\<rparr>"
proof -
  have items: "parse_items results_text =
     [\<lparr>title = Some ''Intro'', link = Some ''https://docs/intro'', content = Some ''Start here''\<rparr>,
      \<lparr>title = Some ''API'', link = None, content = None\<rparr>]"
    by (simp add: parse_items_def results_text_def empty_item_def startsWith_def trim_def
        is_space_def has_title_def)
  then have "\<lparr>title = Some ''API'', link = None, content = None\<rparr> \<in> set (parse_items results_text)"
    by simp
  with C7_scan_is_accumulate_and_flush [of results_text]
  have "has_title \<lparr>title = Some ''API'', link = None, content = None\<rparr>"
    by blast
  with items show ?thesis by simp
qed

section \<open>The selection is bounded and degrades to the empty list\<close>

lemma max_tokens_analysis [simp]: "max_tokens (analysis_request E q r) = 200"
  by (simp add: analysis_request_def)

lemma select_urls_length: "length (select_urls E text) \<le> 3"
  by (simp add: select_urls_def split: option.splits sum.splits jsval.splits)

lemma analyze_length: "length (fst (analyzeSearchResults E q r tr)) \<le> 3"
  by (simp add: analyzeSearchResults_def Let_def select_urls_length
      split: sum.splits option.splits list.splits)

lemma analyze_reply:
  "chat_create E tr (analysis_request E q r) = Inr (Completion (Some (Choice (Some text) # cs)))
   \<Longrightarrow> fst (analyzeSearchResults E q r tr) = select_urls E (trim text)"
  by (simp add: analyzeSearchResults_def Let_def)

text \<open>
  Claim C4. For every query, every result text and every reply of the model, the
  selection has at most three entries. It is empty when the model call fails, when the
  completion has no first choice or its content is \<open>null\<close>, when the trimmed reply has
  no bracket-delimited part, when that part does not parse, and when it
  parses to a value that is not an array; when it parses to an array the selection is
  that array cut to three entries.
\<close>

theorem C4_selection_bounded:
  "length (fst (analyzeSearchResults E q r tr)) \<le> 3
   \<and> (\<forall>e. chat_create E tr (analysis_request E q r) = Inl e
          \<longrightarrow> fst (analyzeSearchResults E q r tr) = [])
   \<and> (\<forall>c. chat_create E tr (analysis_request E q r) = Inr c
              \<and> (choices c = None \<or> choices c = Some []
                   \<or> (\<exists>cs. choices c = Some (Choice None # cs)))
          \<longrightarrow> fst (analyzeSearchResults E q r tr) = [])
   \<and> (\<forall>text cs. chat_create E tr (analysis_request E q r)
                     = Inr (Completion (Some (Choice (Some text) # cs)))
          \<longrightarrow> (bracket_match (trim text) = None
                 \<longrightarrow> fst (analyzeSearchResults E q r tr) = [])
              \<and> (\<forall>m. bracket_match (trim text) = Some m \<longrightarrow>
                    (\<forall>e. json_parse E m = Inl e \<longrightarrow> fst (analyzeSearchResults E q r tr) = [])
                  \<and> (\<forall>v. json_parse E m = Inr v \<and> \<not> is_array v
                          \<longrightarrow> fst (analyzeSearchResults E q r tr) = [])
                  \<and> (\<forall>xs. json_parse E m = Inr (JArr xs)
                          \<longrightarrow> fst (analyzeSearchResults E q r tr) = take 3 xs)))"
proof -
  have err: "fst (analyzeSearchResults E q r tr) = []"
    if "chat_create E tr (analysis_request E q r) = Inl e" for e
    using that by (simp add: analyzeSearchResults_def Let_def)
  have silent: "fst (analyzeSearchResults E q r tr) = []"
    if "chat_create E tr (analysis_request E q r) = Inr c
          \<and> (choices c = None \<or> choices c = Some [] \<or> (\<exists>cs. choices c = Some (Choice None # cs)))"
    for c
    using that by (auto simp: analyzeSearchResults_def Let_def)
  have sel: "fst (analyzeSearchResults E q r tr) = select_urls E (trim t)"
    if "chat_create E tr (analysis_request E q r) = Inr (Completion (Some (Choice (Some t) # cs)))"
    for t cs
    using that by (rule analyze_reply)
  have none: "select_urls E u = []" if "bracket_match u = None" for u
    using that by (simp add: select_urls_def)
  have bad: "select_urls E u = []" if "bracket_match u = Some m" "json_parse E m = Inl e" for u m e
    using that by (simp add: select_urls_def)
  have other: "select_urls E u = []"
    if "bracket_match u = Some m" "json_parse E m = Inr v \<and> \<not> is_array v" for u m v
    using that by (cases v) (simp_all add: select_urls_def)
  have array: "select_urls E u = take 3 xs"
    if "bracket_match u = Some m" "json_parse E m = Inr (JArr xs)" for u m xs
    using that by (simp add: select_urls_def)
  show ?thesis
  proof (intro conjI allI impI)
    show "length (fst (analyzeSearchResults E q r tr)) \<le> 3"
      by (rule analyze_length)
  next
    fix e assume "chat_create E tr (analysis_request E q r) = Inl e"
    then show "fst (analyzeSearchResults E q r tr) = []"
      by (rule err)
  next
    fix c
    assume "chat_create E tr (analysis_request E q r) = Inr c
              \<and> (choices c = None \<or> choices c = Some []
                   \<or> (\<exists>cs. choices c = Some (Choice None # cs)))"
    then show "fst (analyzeSearchResults E q r tr) = []"
      by (rule silent)
  next
    fix t cs
    assume "chat_create E tr (analysis_request E q r)
              = Inr (Completion (Some (Choice (Some t) # cs)))"
      and "bracket_match (trim t) = None"
    then show "fst (analyzeSearchResults E q r tr) = []"
      by (simp add: sel none)
  next
    fix t cs m e
    assume "chat_create E tr (analysis_request E q r)
              = Inr (Completion (Some (Choice (Some t) # cs)))"
      and "bracket_match (trim t) = Some m" and "json_parse E m = Inl e"
    then show "fst (analyzeSearchResults E q r tr) = []"
      using sel bad by simp
  next
    fix t cs m v
    assume "chat_create E tr (analysis_request E q r)
              = Inr (Completion (Some (Choice (Some t) # cs)))"
      and "bracket_match (trim t) = Some m" and "json_parse E m = Inr v \<and> \<not> is_array v"
    then show "fst (analyzeSearchResults E q r tr) = []"
      using sel other by simp
  next
    fix t cs m xs
    assume "chat_create E tr (analysis_request E q r)
              = Inr (Completion (Some (Choice (Some t) # cs)))"
      and "bracket_match (trim t) = Some m" and "json_parse E m = Inr (JArr xs)"
    then show "fst (analyzeSearchResults E q r tr) = take 3 xs"
      using sel array by simp
  qed
qed

lemma bracket_sample:
  \<open>bracket_match (trim ''Fetch these: ["https://docs/intro"]'') = Some ''["https://docs/intro"]''\<close>
  by (simp add: bracket_match_def trim_def is_space_def)

lemma bracket_prose:
  "bracket_match (trim ''None of the pages is relevant.'') = None"
  by (simp add: bracket_match_def trim_def is_space_def)

text \<open>A reply that names one page, and a reply in prose.\<close>

theorem C4_witness:
  \<open>fst (analyzeSearchResults (world down down (replies ''Fetch these: ["https://docs/intro"]'' ''Done.''))
          (JStr ''How do I start?'') results_text []) = [JStr ''https://docs/intro'']
   \<and> fst (analyzeSearchResults (world down down (replies ''None of the pages is relevant.'' ''Done.''))
          (JStr ''How do I start?'') results_text []) = []\<close>
proof -
  let ?q = "JStr ''How do I start?''"
  let ?E = \<open>world down down (replies ''Fetch these: ["https://docs/intro"]'' ''Done.'')\<close>
  let ?F = "world down down (replies ''None of the pages is relevant.'' ''Done.'')"
  have r1: \<open>chat_create ?E [] (analysis_request ?E ?q results_text)
        = Inr (Completion (Some (Choice (Some ''Fetch these: ["https://docs/intro"]'') # [])))\<close>
    by (simp add: world_def replies_def)
  have p1: \<open>json_parse ?E ''["https://docs/intro"]'' = Inr (JArr [JStr ''https://docs/intro''])\<close>
    by (simp add: world_def sample_codec)
  have r2: "chat_create ?F [] (analysis_request ?F ?q results_text)
        = Inr (Completion (Some (Choice (Some ''None of the pages is relevant.'') # [])))"
    by (simp add: world_def replies_def)
  have a: "fst (analyzeSearchResults ?E ?q results_text []) = take 3 [JStr ''https://docs/intro'']"
    using C4_selection_bounded [of ?E ?q results_text "[]"] r1 bracket_sample p1 by blast
  have b: "fst (analyzeSearchResults ?F ?q results_text []) = []"
    using C4_selection_bounded [of ?F ?q results_text "[]"] r2 bracket_prose by blast
  from a b show ?thesis by simp
qed

section \<open>The two failure modes of the search client\<close>

lemma get_prop_truthy: "truthy v \<Longrightarrow> \<exists>w. get_prop v k = Inr w"
  by (cases v) simp_all

lemma search_text_no_array:
  "\<not> is_array (result_content searchData) \<Longrightarrow> search_text E searchData = Some sentinel"
proof -
  assume shape: "\<not> is_array (result_content searchData)"
  show ?thesis
  proof (cases "truthy searchData")
    case False
    then show ?thesis by (simp add: search_text_def)
  next
    case True
    then obtain result where r: "get_prop searchData ''result'' = Inr result"
      using get_prop_truthy by blast
    show ?thesis
    proof (cases "truthy result")
      case False
      with True r show ?thesis by (simp add: search_text_def)
    next
      case res: True
      then obtain contents where c: "get_prop result ''content'' = Inr contents"
        using get_prop_truthy by blast
      from shape r c have "\<not> is_array contents"
        by (simp add: result_content_def)
      with True r res c show ?thesis
        by (cases contents) (simp_all add: search_text_def)
    qed
  qed
qed

lemma search_first_fails:
  "http_post E tr init_request = Inl e \<Longrightarrow> fst (searchCerebrasDocs E q tr) = None"
  by (simp add: searchCerebrasDocs_def Let_def)

lemma search_second_fails:
  "http_post E tr init_request = Inr d1 \<Longrightarrow>
   http_post E (tr @ [CallPost init_request]) tools_request = Inl e \<Longrightarrow>
   fst (searchCerebrasDocs E q tr) = None"
  by (simp add: searchCerebrasDocs_def Let_def)

lemma search_third_fails:
  "http_post E tr init_request = Inr d1 \<Longrightarrow>
   http_post E (tr @ [CallPost init_request]) tools_request = Inr d2 \<Longrightarrow>
   http_post E (tr @ [CallPost init_request, CallPost tools_request]) (search_request q) = Inl e \<Longrightarrow>
   fst (searchCerebrasDocs E q tr) = None"
  by (simp add: searchCerebrasDocs_def Let_def)

lemma search_answered:
  "http_post E tr init_request = Inr d1 \<Longrightarrow>
   http_post E (tr @ [CallPost init_request]) tools_request = Inr d2 \<Longrightarrow>
   http_post E (tr @ [CallPost init_request, CallPost tools_request]) (search_request q) = Inr d3 \<Longrightarrow>
   fst (searchCerebrasDocs E q tr) = search_text E (parseSSEResponse E d3)"
  by (simp add: searchCerebrasDocs_def Let_def)

lemma search_log:
  "\<exists>posts. snd (searchCerebrasDocs E q tr) = tr @ map CallPost posts"
proof -
  have "snd (searchCerebrasDocs E q tr) = tr @ map CallPost [init_request]
      \<or> snd (searchCerebrasDocs E q tr) = tr @ map CallPost [init_request, tools_request]
      \<or> snd (searchCerebrasDocs E q tr) = tr @ map CallPost [init_request, tools_request, search_request q]"
    by (simp add: searchCerebrasDocs_def Let_def split: sum.splits)
  then show ?thesis by blast
qed

text \<open>
  Claim C3. A transport error at the handshake, at the tool listing or at the query makes
  the search return absent. When all three calls are answered and the decoded answer to
  the query has no array at \<open>result.content\<close>, the search returns the fixed sentinel
  string (in the source: \<open>No relevant documentation found for your query.\<close>) and not
  absent.
\<close>

theorem C3_search_failure_modes:
  "(\<forall>e. http_post E tr init_request = Inl e \<longrightarrow> fst (searchCerebrasDocs E q tr) = None)
   \<and> (\<forall>d1 e. http_post E tr init_request = Inr d1
              \<and> http_post E (tr @ [CallPost init_request]) tools_request = Inl e
          \<longrightarrow> fst (searchCerebrasDocs E q tr) = None)
   \<and> (\<forall>d1 d2 e. http_post E tr init_request = Inr d1
              \<and> http_post E (tr @ [CallPost init_request]) tools_request = Inr d2
              \<and> http_post E (tr @ [CallPost init_request, CallPost tools_request]) (search_request q) = Inl e
          \<longrightarrow> fst (searchCerebrasDocs E q tr) = None)
   \<and> (\<forall>d1 d2 d3. http_post E tr init_request = Inr d1
              \<and> http_post E (tr @ [CallPost init_request]) tools_request = Inr d2
              \<and> http_post E (tr @ [CallPost init_request, CallPost tools_request]) (search_request q) = Inr d3
              \<and> \<not> is_array (result_content (parseSSEResponse E d3))
          \<longrightarrow> fst (searchCerebrasDocs E q tr) = Some sentinel)"
proof (intro conjI allI impI)
  fix e assume "http_post E tr init_request = Inl e"
  then show "fst (searchCerebrasDocs E q tr) = None"
    by (rule search_first_fails)
next
  fix d1 e
  assume "http_post E tr init_request = Inr d1
            \<and> http_post E (tr @ [CallPost init_request]) tools_request = Inl e"
  then show "fst (searchCerebrasDocs E q tr) = None"
    using search_second_fails by blast
next
  fix d1 d2 e
  assume "http_post E tr init_request = Inr d1
            \<and> http_post E (tr @ [CallPost init_request]) tools_request = Inr d2
            \<and> http_post E (tr @ [CallPost init_request, CallPost tools_request]) (search_request q) = Inl e"
  then show "fst (searchCerebrasDocs E q tr) = None"
    using search_third_fails by blast
next
  fix d1 d2 d3
  assume a: "http_post E tr init_request = Inr d1
            \<and> http_post E (tr @ [CallPost init_request]) tools_request = Inr d2
            \<and> http_post E (tr @ [CallPost init_request, CallPost tools_request]) (search_request q) = Inr d3
            \<and> \<not> is_array (result_content (parseSSEResponse E d3))"
  then have "fst (searchCerebrasDocs E q tr) = search_text E (parseSSEResponse E d3)"
    using search_answered by blast
  with a show "fst (searchCerebrasDocs E q tr) = Some sentinel"
    by (simp add: search_text_no_array)
qed

lemma sample_decode_empty:
  "parseSSEResponse (world p g l) (JStr (''event: message'' @ [NL] @ ''data: {}'')) = JObj []"
  by (simp add: parseSSEResponse_def world_def startsWith_def sample_codec)

text \<open>A service that is down, and a service that answers the query with an empty object.\<close>

theorem C3_witness:
  "fst (searchCerebrasDocs (world down down down) (JStr ''How do I start?'') []) = None
   \<and> fst (searchCerebrasDocs (world (answers ''{}'') down down) (JStr ''How do I start?'') [])
       = Some ''No relevant documentation found for your query.''"
proof -
  let ?q = "JStr ''How do I start?''"
  let ?D = "world down down down"
  let ?E = "world (answers ''{}'') down down"
  let ?d = "JStr (''event: message'' @ [NL] @ ''data: {}'')"
  have "http_post ?D [] init_request = Inl (Error ''connect ECONNREFUSED'')"
    by (simp add: world_def down_def)
  with C3_search_failure_modes [of ?D "[]" ?q]
  have a: "fst (searchCerebrasDocs ?D ?q []) = None"
    by blast
  have p1: "http_post ?E [] init_request = Inr ?d"
    and p2: "http_post ?E ([] @ [CallPost init_request]) tools_request = Inr ?d"
    and p3: "http_post ?E ([] @ [CallPost init_request, CallPost tools_request]) (search_request ?q) = Inr ?d"
    by (simp_all add: world_def answers_def init_request_def tools_request_def search_request_def)
  have "parseSSEResponse ?E ?d = JObj []"
    by (rule sample_decode_empty)
  then have s: "\<not> is_array (result_content (parseSSEResponse ?E ?d))"
    by (simp only: result_content_def) simp
  from C3_search_failure_modes [of ?E "[]" ?q] p1 p2 p3 s
  have b: "fst (searchCerebrasDocs ?E ?q []) = Some sentinel"
    by blast
  from a b show ?thesis by (simp add: sentinel_def)
qed

section \<open>The fetcher skips what fails and joins the rest\<close>

lemma pages_Nil [simp]: "pages E tr [] = []"
  by (simp add: pages_def List.map_filter_def)

lemma pages_Cons:
  "pages E tr (url # rest) =
     (case page E tr url of None \<Rightarrow> [] | Some block \<Rightarrow> [block]) @ pages E (tr @ [CallGet url]) rest"
proof -
  let ?f = "\<lambda>i. page E (tr @ map CallGet (take i (url # rest))) ((url # rest) ! i)"
  let ?g = "\<lambda>i. page E ((tr @ [CallGet url]) @ map CallGet (take i rest)) (rest ! i)"
  have shift: "[0..<length (url # rest)] = 0 # map Suc [0..<length rest]"
    by (simp add: upt_conv_Cons map_Suc_upt del: upt_Suc)
  have "List.map_filter ?f (map Suc [0..<length rest]) = List.map_filter ?g [0..<length rest]"
    by (simp add: List.map_filter_def filter_map comp_def)
  then show ?thesis
    unfolding pages_def shift
    by (cases "page E tr url") (simp_all add: List.map_filter_simps)
qed

lemma fetch_loop_pages:
  "fetch_loop E urls contents tr = (contents @ pages E tr urls, tr @ map CallGet urls)"
proof (induction urls arbitrary: contents tr)
  case Nil
  show ?case by simp
next
  case (Cons url rest)
  show ?case
    by (cases "http_get E tr url") (simp_all add: Cons.IH pages_Cons page_def)
qed

lemma fetch_pages:
  "fetchFullContent E urls tr =
     (if pages E tr urls = [] then None else Some (join page_separator (pages E tr urls)),
      tr @ map CallGet urls)"
  by (simp add: fetchFullContent_def fetch_loop_pages)

lemma pages_empty:
  "pages E tr urls = [] \<longleftrightarrow>
     (\<forall>i < length urls. page E (tr @ map CallGet (take i urls)) (urls ! i) = None)"
  by (auto simp: pages_def List.map_filter_def filter_empty_conv)

lemma fetch_absent:
  "fst (fetchFullContent E urls tr) = None \<longleftrightarrow>
     (\<forall>i < length urls. page E (tr @ map CallGet (take i urls)) (urls ! i) = None)"
  by (simp add: fetch_pages pages_empty)

lemma page_nonempty: "page E tr url = Some block \<Longrightarrow> block \<noteq> []"
  by (auto simp: page_def page_block_def split: sum.splits if_splits)

lemma pages_nonempty: "block \<in> set (pages E tr urls) \<Longrightarrow> block \<noteq> []"
  by (auto simp: pages_def List.map_filter_def dest: page_nonempty)

lemma join_nonempty: "xs \<noteq> [] \<Longrightarrow> hd xs \<noteq> [] \<Longrightarrow> join sep xs \<noteq> []"
  by (induction sep xs rule: join.induct) simp_all

lemma fetch_blob_nonempty:
  "fst (fetchFullContent E urls tr) = Some blob \<Longrightarrow> blob \<noteq> []"
proof -
  assume "fst (fetchFullContent E urls tr) = Some blob"
  then have ne: "pages E tr urls \<noteq> []" and blob: "blob = join page_separator (pages E tr urls)"
    by (auto simp: fetch_pages split: if_splits)
  from ne have "hd (pages E tr urls) \<in> set (pages E tr urls)" by simp
  then have "hd (pages E tr urls) \<noteq> []" by (rule pages_nonempty)
  with ne blob show ?thesis by (simp add: join_nonempty)
qed

text \<open>
  Claim C5, as amended. For every URL list the fetcher requests every URL, one after the
  other in the order of the list; a URL whose request fails or whose response has an
  empty body is skipped and the batch goes on. The result is absent if and only if no URL
  contributed a text (every URL failed or came back empty, which includes the empty
  list), and otherwise it is the wrapped texts of the contributing URLs joined by the
  separator line.
\<close>

theorem C5_fetch_skips_and_joins:
  "fetchFullContent E urls tr =
     (if pages E tr urls = [] then None else Some (join page_separator (pages E tr urls)),
      tr @ map CallGet urls)
   \<and> (fst (fetchFullContent E urls tr) = None \<longleftrightarrow>
        (\<forall>i < length urls. page E (tr @ map CallGet (take i urls)) (urls ! i) = None))"
  using fetch_pages fetch_absent by blast

text \<open>
  Claim C5 as stated fails: the list is not empty and its one request succeeds, with an
  empty body, and the result is absent.
\<close>

theorem C5_counterexample:
  "http_get (world down blank_page down) [] (JStr ''https://docs/intro'') = Inr (JStr [])
   \<and> fetchFullContent (world down blank_page down) [JStr ''https://docs/intro''] []
       = (None, [CallGet (JStr ''https://docs/intro'')])"
  by (simp add: fetchFullContent_def world_def blank_page_def)

text \<open>A batch whose one URL fails, and a batch where the second URL succeeds.\<close>

theorem C5_witness:
  "fst (fetchFullContent (world down intro_page down) [JStr ''https://docs/gone''] []) = None
   \<and> fst (fetchFullContent (world down intro_page down)
            [JStr ''https://docs/gone'', JStr ''https://docs/intro''] [])
       = Some ([NL, NL] @ ''=== Content from https://docs/intro ==='' @ [NL]
                 @ '' Intro Start here '' @ [NL])"
proof -
  let ?W = "world down intro_page down"
  let ?gone = "JStr ''https://docs/gone''"
  let ?intro = "JStr ''https://docs/intro''"
  have "\<forall>i < length [?gone]. page ?W ([] @ map CallGet (take i [?gone])) ([?gone] ! i) = None"
    by (simp add: page_def world_def intro_page_def)
  with C5_fetch_skips_and_joins [of ?W "[?gone]" "[]"]
  have a: "fst (fetchFullContent ?W [?gone] []) = None"
    by blast
  have "pages ?W [] [?gone, ?intro]
      = [[NL, NL] @ ''=== Content from https://docs/intro ==='' @ [NL] @ '' Intro Start here '' @ [NL]]"
    by (simp add: pages_Cons page_def world_def intro_page_def page_block_def page_text_def
        is_space_def)
  with C5_fetch_skips_and_joins [of ?W "[?gone, ?intro]" "[]"]
  have b: "fst (fetchFullContent ?W [?gone, ?intro] [])
      = Some ([NL, NL] @ ''=== Content from https://docs/intro ==='' @ [NL] @ '' Intro Start here '' @ [NL])"
    by simp
  from a b show ?thesis by blast
qed

section \<open>The orchestrator and the context of the composer\<close>

lemma chat_final:
  "get_prop b ''message'' = Inr msg \<Longrightarrow> truthy msg \<Longrightarrow>
   chat E b tr = respond E (case final_context E msg tr of (ctx, t) \<Rightarrow> getCerebrasResponse E msg ctx t)"
proof -
  assume m: "get_prop b ''message'' = Inr msg" "truthy msg"
  obtain sr tr1 where s: "searchCerebrasDocs E msg tr = (sr, tr1)"
    by (cases "searchCerebrasDocs E msg tr")
  obtain urls tr2 where a: "analyzeSearchResults E msg (the sr) tr1 = (urls, tr2)"
    by (cases "analyzeSearchResults E msg (the sr) tr1")
  obtain fc tr3 where f: "fetchFullContent E urls tr2 = (fc, tr3)"
    by (cases "fetchFullContent E urls tr2")
  show ?thesis
  proof (cases "sr = None \<or> sr = Some []")
    case True
    with m s show ?thesis
      by (simp add: chat_def final_context_def respond_def)
  next
    case False
    then obtain x where x: "sr = Some x" "x \<noteq> []"
      by (cases sr) auto
    with m s a f show ?thesis
      by (cases "urls = []") (simp_all add: chat_def final_context_def respond_def)
  qed
qed

lemma compose_log:
  "snd (getCerebrasResponse E msg ctx t) = t @ [CallChat (compose_request msg ctx)]"
  by (simp add: getCerebrasResponse_def Let_def split: sum.splits option.splits list.splits)

lemma respond_log: "snd (respond E outcome) = snd outcome"
  by (simp add: respond_def split: prod.splits sum.splits)

lemma chat_log:
  "get_prop b ''message'' = Inr msg \<Longrightarrow> truthy msg \<Longrightarrow>
   snd (chat E b tr) = snd (final_context E msg tr) @ [CallChat (compose_request msg (fst (final_context E msg tr)))]"
  by (simp add: chat_final respond_log compose_log split: prod.splits)

lemma final_absent:
  "fst (searchCerebrasDocs E msg tr) = None \<or> fst (searchCerebrasDocs E msg tr) = Some [] \<Longrightarrow>
   final_context E msg tr = (None, snd (searchCerebrasDocs E msg tr))"
  by (auto simp: final_context_def split: prod.splits)

lemma final_unselected:
  "searchCerebrasDocs E msg tr = (Some s, tr1) \<Longrightarrow> s \<noteq> [] \<Longrightarrow>
   analyzeSearchResults E msg s tr1 = ([], tr2) \<Longrightarrow>
   final_context E msg tr = (Some s, tr2)"
  by (simp add: final_context_def)

lemma final_fetched:
  "searchCerebrasDocs E msg tr = (Some s, tr1) \<Longrightarrow> s \<noteq> [] \<Longrightarrow>
   analyzeSearchResults E msg s tr1 = (urls, tr2) \<Longrightarrow> urls \<noteq> [] \<Longrightarrow>
   fetchFullContent E urls tr2 = (fc, tr3) \<Longrightarrow>
   final_context E msg tr = (Some (case fc of None \<Rightarrow> s | Some blob \<Rightarrow> blob), tr3)"
proof -
  assume a: "searchCerebrasDocs E msg tr = (Some s, tr1)" "s \<noteq> []"
    "analyzeSearchResults E msg s tr1 = (urls, tr2)" "urls \<noteq> []"
    and f: "fetchFullContent E urls tr2 = (fc, tr3)"
  have "fc \<noteq> Some []"
    using fetch_blob_nonempty [of E urls tr2 "[]"] f by auto
  with a f show ?thesis
    by (cases fc) (simp_all add: final_context_def)
qed

lemma final_nonempty:
  "fst (searchCerebrasDocs E msg tr) = Some s \<Longrightarrow> s \<noteq> [] \<Longrightarrow>
   \<exists>ctx. ctx \<noteq> [] \<and> fst (final_context E msg tr) = Some ctx"
  by (auto simp: final_context_def split: prod.splits)


lemma all_failed_absent:
  "\<forall>i < length urls. \<exists>e. http_get E (tr @ map CallGet (take i urls)) (urls ! i) = Inl e \<Longrightarrow>
   fst (fetchFullContent E urls tr) = None"
  unfolding fetch_absent by (auto simp: page_def)

text \<open>
  Claim C1. In a run of the handler where the search returned a text (not absent, not
  empty), the selection is not empty and the fetcher returned \<open>fc\<close>, the composer is
  called with the search text as context when \<open>fc\<close> is absent, and with the fetched
  text only when \<open>fc\<close> is a text; the call of the composer is the last call of the
  run. When every request of the batch fails, the fetcher returns absent.
\<close>

theorem C1_context_falls_back_to_search_text:
  assumes "get_prop b ''message'' = Inr msg" and "truthy msg"
    and "searchCerebrasDocs E msg tr = (Some s, tr1)" and "s \<noteq> []"
    and "analyzeSearchResults E msg s tr1 = (urls, tr2)" and "urls \<noteq> []"
    and "fetchFullContent E urls tr2 = (fc, tr3)"
  shows "chat E b tr
           = respond E (getCerebrasResponse E msg (Some (case fc of None \<Rightarrow> s | Some blob \<Rightarrow> blob)) tr3)
     \<and> snd (chat E b tr)
           = tr3 @ [CallChat (compose_request msg (Some (case fc of None \<Rightarrow> s | Some blob \<Rightarrow> blob)))]
     \<and> ((\<forall>i < length urls. \<exists>e. http_get E (tr2 @ map CallGet (take i urls)) (urls ! i) = Inl e)
            \<longrightarrow> fc = None)"
proof -
  have ctx: "final_context E msg tr = (Some (case fc of None \<Rightarrow> s | Some blob \<Rightarrow> blob), tr3)"
    using assms(3-7) by (rule final_fetched)
  have "fc = None"
    if "\<forall>i < length urls. \<exists>e. http_get E (tr2 @ map CallGet (take i urls)) (urls ! i) = Inl e"
    using all_failed_absent [OF that] assms(7) by simp
  then show ?thesis
    using chat_final [OF assms(1,2), of E tr] chat_log [OF assms(1,2), of E tr] ctx by simp
qed

lemma sample_search:
  "searchCerebrasDocs (world (answers found_text) g l) q []
     = (Some results_text, [CallPost init_request, CallPost tools_request, CallPost (search_request q)])"
  by (simp add: searchCerebrasDocs_def world_def answers_def init_request_def tools_request_def
      search_request_def parseSSEResponse_def startsWith_def sample_codec
      found_text_def search_text_def item_text_def)

lemma sample_select:
  "analyzeSearchResults (world p g (replies picks_intro a)) q r tr
     = ([JStr ''https://docs/intro''], tr @ [CallChat (analysis_request (world p g (replies picks_intro a)) q r)])"
  by (simp add: analyzeSearchResults_def Let_def world_def replies_def select_urls_def
      picks_intro_def bracket_match_def trim_def is_space_def sample_codec)

lemma sample_fetch_down:
  "fetchFullContent (world p down l) [u] tr = (None, tr @ [CallGet u])"
  by (simp add: fetchFullContent_def world_def down_def)

lemma hi_message: "get_prop hi ''message'' = Inr (JStr ''hi'')" "truthy (JStr ''hi'')"
  by (simp_all add: hi_def)

text \<open>
  A run where the search finds the sample text, the model selects one page and the page
  cannot be fetched: the composer is called with the sample text.
\<close>

theorem C1_witness:
  "snd (chat (world (answers found_text) down (replies picks_intro ''Start with the intro.'')) hi [])
     = [CallPost init_request, CallPost tools_request, CallPost (search_request (JStr ''hi'')),
        CallChat (analysis_request (world (answers found_text) down (replies picks_intro ''Start with the intro.''))
                    (JStr ''hi'') results_text),
        CallGet (JStr ''https://docs/intro''),
        CallChat (compose_request (JStr ''hi'') (Some results_text))]"
proof -
  let ?W = "world (answers found_text) down (replies picks_intro ''Start with the intro.'')"
  have ne: "results_text \<noteq> []" "[JStr ''https://docs/intro''] \<noteq> []"
    by (simp_all add: results_text_def)
  note run = C1_context_falls_back_to_search_text
    [OF hi_message sample_search ne(1)
       sample_select [where a = "''Start with the intro.''"] ne(2) sample_fetch_down]
  from run [THEN conjunct2, THEN conjunct1] show ?thesis by simp
qed


lemma prompt_absent: "system_content (compose_request msg None) = persona @ disclosure"
  by (simp add: compose_request_def systemPrompt_def)

lemma sample_search_down:
  "searchCerebrasDocs (world down g l) q [] = (None, [CallPost init_request])"
  by (simp add: searchCerebrasDocs_def world_def down_def)

lemma compose_user: "user_content (compose_request m c) = m"
  by (simp add: compose_request_def)

lemma prompt_absent_text:
  "system_content (compose_request m None)
     = ''You are a helpful assistant that answers questions about the Cerebras Platform.''
         @ [NL, NL]
         @ ''Note: I couldn't access the MCP server at this moment. Please inform the user that the documentation server is unavailable and you cannot provide specific information from the docs.''"
  by (simp add: compose_request_def systemPrompt_def persona_def disclosure_def)

lemma prompt_grounded_text:
  "ctx \<noteq> [] \<Longrightarrow>
   system_content (compose_request m (Some ctx))
     = ''You are a helpful assistant that answers questions about the Cerebras Platform.''
         @ [NL, NL]
         @ ''Use the following context from the official Cerebras documentation to answer the user's question accurately:''
         @ [NL, NL] @ ctx @ [NL, NL] @ ''Base your answer primarily on this documentation.''"
  by (simp add: compose_request_def systemPrompt_def persona_def grounding_def)

text \<open>
  Claim C6. When the search returns absent, the handler calls the composer with an
  absent context right after the calls of the search, with no selection and no fetch in
  between. The composer sends exactly one request, with the message as the user content
  and a system prompt built from the context: for an absent context the persona followed
  by the instruction to tell the user that the documentation server is unavailable; for
  every context that is not empty the persona followed by the grounding instruction with
  the context embedded verbatim. In a run where the search returns a text that is not
  empty, the context of the composer is that text when nothing is selected or nothing
  can be fetched, and the fetched text otherwise; it is never empty, so the prompt of
  such a run always embeds it.
\<close>

theorem C6_absent_search_composes_with_disclosure:
  assumes "get_prop b ''message'' = Inr msg" and "truthy msg"
  shows "(fst (searchCerebrasDocs E msg tr) = None \<longrightarrow>
            chat E b tr = respond E (getCerebrasResponse E msg None (snd (searchCerebrasDocs E msg tr)))
          \<and> (\<exists>posts. snd (chat E b tr) = tr @ map CallPost posts @ [CallChat (compose_request msg None)]))
     \<and> (\<forall>m c t. snd (getCerebrasResponse E m c t) = t @ [CallChat (compose_request m c)]
            \<and> user_content (compose_request m c) = m)
     \<and> (\<forall>m. system_content (compose_request m None)
            = ''You are a helpful assistant that answers questions about the Cerebras Platform.''
                @ [NL, NL]
                @ ''Note: I couldn't access the MCP server at this moment. Please inform the user that the documentation server is unavailable and you cannot provide specific information from the docs.'')
     \<and> (\<forall>m ctx. ctx \<noteq> [] \<longrightarrow>
           system_content (compose_request m (Some ctx))
            = ''You are a helpful assistant that answers questions about the Cerebras Platform.''
                @ [NL, NL]
                @ ''Use the following context from the official Cerebras documentation to answer the user's question accurately:''
                @ [NL, NL] @ ctx @ [NL, NL] @ ''Base your answer primarily on this documentation.'')
     \<and> (\<forall>s tr1 urls tr2.
            searchCerebrasDocs E msg tr = (Some s, tr1) \<and> s \<noteq> []
              \<and> analyzeSearchResults E msg s tr1 = (urls, tr2)
          \<longrightarrow> (urls = [] \<longrightarrow>
                  chat E b tr = respond E (getCerebrasResponse E msg (Some s) tr2)
                \<and> snd (chat E b tr) = tr2 @ [CallChat (compose_request msg (Some s))])
              \<and> (\<forall>fc tr3. urls \<noteq> [] \<and> fetchFullContent E urls tr2 = (fc, tr3) \<longrightarrow>
                    (case fc of None \<Rightarrow> s | Some blob \<Rightarrow> blob) \<noteq> []
                  \<and> chat E b tr
                      = respond E (getCerebrasResponse E msg
                          (Some (case fc of None \<Rightarrow> s | Some blob \<Rightarrow> blob)) tr3)
                  \<and> snd (chat E b tr)
                      = tr3 @ [CallChat (compose_request msg
                          (Some (case fc of None \<Rightarrow> s | Some blob \<Rightarrow> blob)))]))"
proof (intro conjI allI impI)
  assume none: "fst (searchCerebrasDocs E msg tr) = None"
  then have ctx: "final_context E msg tr = (None, snd (searchCerebrasDocs E msg tr))"
    by (simp add: final_absent)
  show "chat E b tr = respond E (getCerebrasResponse E msg None (snd (searchCerebrasDocs E msg tr)))"
    using chat_final [OF assms, of E tr] ctx by simp
  obtain posts where "snd (searchCerebrasDocs E msg tr) = tr @ map CallPost posts"
    using search_log by blast
  then have "snd (chat E b tr) = tr @ map CallPost posts @ [CallChat (compose_request msg None)]"
    using chat_log [OF assms, of E tr] ctx by simp
  then show "\<exists>posts. snd (chat E b tr) = tr @ map CallPost posts @ [CallChat (compose_request msg None)]"
    by blast
next
  fix m c t
  show "snd (getCerebrasResponse E m c t) = t @ [CallChat (compose_request m c)]"
    by (rule compose_log)
  show "user_content (compose_request m c) = m"
    by (rule compose_user)
next
  fix m
  show "system_content (compose_request m None)
            = ''You are a helpful assistant that answers questions about the Cerebras Platform.''
                @ [NL, NL]
                @ ''Note: I couldn't access the MCP server at this moment. Please inform the user that the documentation server is unavailable and you cannot provide specific information from the docs.''"
    by (rule prompt_absent_text)
next
  fix m :: jsval and ctx :: string
  assume "ctx \<noteq> []"
  then show "system_content (compose_request m (Some ctx))
            = ''You are a helpful assistant that answers questions about the Cerebras Platform.''
                @ [NL, NL]
                @ ''Use the following context from the official Cerebras documentation to answer the user's question accurately:''
                @ [NL, NL] @ ctx @ [NL, NL] @ ''Base your answer primarily on this documentation.''"
    by (rule prompt_grounded_text)
next
  fix s tr1 urls tr2
  assume run: "searchCerebrasDocs E msg tr = (Some s, tr1) \<and> s \<noteq> []
              \<and> analyzeSearchResults E msg s tr1 = (urls, tr2)"
    and none: "urls = []"
  then have ctx: "final_context E msg tr = (Some s, tr2)"
    using final_unselected [of E msg tr s tr1 tr2] by simp
  show "chat E b tr = respond E (getCerebrasResponse E msg (Some s) tr2)"
    using chat_final [OF assms, of E tr] ctx by simp
  show "snd (chat E b tr) = tr2 @ [CallChat (compose_request msg (Some s))]"
    using chat_log [OF assms, of E tr] ctx by simp
next
  fix s tr1 urls tr2 fc tr3
  assume run: "searchCerebrasDocs E msg tr = (Some s, tr1) \<and> s \<noteq> []
              \<and> analyzeSearchResults E msg s tr1 = (urls, tr2)"
    and fetched: "urls \<noteq> [] \<and> fetchFullContent E urls tr2 = (fc, tr3)"
  let ?ctx = "case fc of None \<Rightarrow> s | Some blob \<Rightarrow> blob"
  have ctx: "final_context E msg tr = (Some ?ctx, tr3)"
    using final_fetched [of E msg tr s tr1 urls tr2 fc tr3] run fetched by simp
  show "?ctx \<noteq> []"
    using run fetched fetch_blob_nonempty [of E urls tr2] by (cases fc) simp_all
  show "chat E b tr = respond E (getCerebrasResponse E msg (Some ?ctx) tr3)"
    using chat_final [OF assms, of E tr] ctx by simp
  show "snd (chat E b tr) = tr3 @ [CallChat (compose_request msg (Some ?ctx))]"
    using chat_log [OF assms, of E tr] ctx by simp
qed


lemma sample_fetch_intro:
  "fetchFullContent (world p intro_page l) [JStr ''https://docs/intro''] tr
     = (Some ([NL, NL] @ ''=== Content from https://docs/intro ==='' @ [NL]
                @ '' Intro Start here '' @ [NL]),
        tr @ [CallGet (JStr ''https://docs/intro'')])"
  by (simp add: fetchFullContent_def world_def intro_page_def page_block_def page_text_def
      is_space_def)

text \<open>
  Two runs: one with the search service down, which ends in the disclosure prompt, and
  one where the search finds the sample text, the model selects one page and the page is
  fetched, which ends in the grounding prompt around the fetched page.
\<close>

theorem C6_witness:
  "chat (world down down (replies picks_intro ''The documentation server is unavailable.'')) hi []
     = (\<lparr>status = 200,
          sent = render (JObj [(''response'', JStr ''The documentation server is unavailable.'')])\<rparr>,
        [CallPost init_request, CallChat (compose_request (JStr ''hi'') None)])
   \<and> system_content (compose_request (JStr ''hi'') None)
     = ''You are a helpful assistant that answers questions about the Cerebras Platform.''
         @ [NL, NL]
         @ ''Note: I couldn't access the MCP server at this moment. Please inform the user that the documentation server is unavailable and you cannot provide specific information from the docs.''
   \<and> snd (chat (world (answers found_text) intro_page (replies picks_intro ''Start with the intro.'')) hi [])
     = [CallPost init_request, CallPost tools_request, CallPost (search_request (JStr ''hi'')),
        CallChat (analysis_request
                    (world (answers found_text) intro_page (replies picks_intro ''Start with the intro.''))
                    (JStr ''hi'') results_text),
        CallGet (JStr ''https://docs/intro''),
        CallChat (compose_request (JStr ''hi'')
                    (Some ([NL, NL] @ ''=== Content from https://docs/intro ==='' @ [NL]
                             @ '' Intro Start here '' @ [NL])))]
   \<and> system_content (compose_request (JStr ''hi'')
                        (Some ([NL, NL] @ ''=== Content from https://docs/intro ==='' @ [NL]
                                 @ '' Intro Start here '' @ [NL])))
     = ''You are a helpful assistant that answers questions about the Cerebras Platform.''
         @ [NL, NL]
         @ ''Use the following context from the official Cerebras documentation to answer the user's question accurately:''
         @ [NL, NL]
         @ ([NL, NL] @ ''=== Content from https://docs/intro ==='' @ [NL] @ '' Intro Start here '' @ [NL])
         @ [NL, NL] @ ''Base your answer primarily on this documentation.''"
proof -
  let ?D = "world down down (replies picks_intro ''The documentation server is unavailable.'')"
  let ?W = "world (answers found_text) intro_page (replies picks_intro ''Start with the intro.'')"
  let ?block = "[NL, NL] @ ''=== Content from https://docs/intro ==='' @ [NL] @ '' Intro Start here '' @ [NL]"
  note absent = C6_absent_search_composes_with_disclosure [OF hi_message, of ?D "[]"]
  note grounded = C6_absent_search_composes_with_disclosure [OF hi_message, of ?W "[]"]
  have none: "fst (searchCerebrasDocs ?D (JStr ''hi'') []) = None"
    by (simp add: sample_search_down)
  with absent
  have "chat ?D hi []
      = respond ?D (getCerebrasResponse ?D (JStr ''hi'') None (snd (searchCerebrasDocs ?D (JStr ''hi'') [])))"
    by blast
  moreover have "snd (searchCerebrasDocs ?D (JStr ''hi'') []) = [CallPost init_request]"
    by (simp add: sample_search_down)
  moreover have "getCerebrasResponse ?D (JStr ''hi'') None [CallPost init_request]
      = (Inr (Some ''The documentation server is unavailable.''),
         [CallPost init_request, CallChat (compose_request (JStr ''hi'') None)])"
    by (simp add: getCerebrasResponse_def Let_def world_def replies_def compose_request_def)
  ultimately have "chat ?D hi []
      = respond ?D (Inr (Some ''The documentation server is unavailable.''),
                    [CallPost init_request, CallChat (compose_request (JStr ''hi'') None)])"
    by simp
  then have a: "chat ?D hi []
     = (\<lparr>status = 200,
          sent = render (JObj [(''response'', JStr ''The documentation server is unavailable.'')])\<rparr>,
        [CallPost init_request, CallChat (compose_request (JStr ''hi'') None)])"
    by (simp add: respond_def answer_body_def world_def)
  from absent
  have b: "system_content (compose_request (JStr ''hi'') None)
     = ''You are a helpful assistant that answers questions about the Cerebras Platform.''
         @ [NL, NL]
         @ ''Note: I couldn't access the MCP server at this moment. Please inform the user that the documentation server is unavailable and you cannot provide specific information from the docs.''"
    by blast
  have found: "searchCerebrasDocs ?W (JStr ''hi'') []
        = (Some results_text,
           [CallPost init_request, CallPost tools_request, CallPost (search_request (JStr ''hi''))])
      \<and> results_text \<noteq> []
      \<and> analyzeSearchResults ?W (JStr ''hi'') results_text
           [CallPost init_request, CallPost tools_request, CallPost (search_request (JStr ''hi''))]
        = ([JStr ''https://docs/intro''],
           [CallPost init_request, CallPost tools_request, CallPost (search_request (JStr ''hi''))]
             @ [CallChat (analysis_request ?W (JStr ''hi'') results_text)])"
    by (simp add: sample_search sample_select results_text_def)
  have fetched: "[JStr ''https://docs/intro''] \<noteq> []
      \<and> fetchFullContent ?W [JStr ''https://docs/intro'']
           ([CallPost init_request, CallPost tools_request, CallPost (search_request (JStr ''hi''))]
              @ [CallChat (analysis_request ?W (JStr ''hi'') results_text)])
        = (Some ?block,
           ([CallPost init_request, CallPost tools_request, CallPost (search_request (JStr ''hi''))]
              @ [CallChat (analysis_request ?W (JStr ''hi'') results_text)])
             @ [CallGet (JStr ''https://docs/intro'')])"
    by (simp only: sample_fetch_intro) simp
  from grounded found fetched
  have "snd (chat ?W hi [])
      = (([CallPost init_request, CallPost tools_request, CallPost (search_request (JStr ''hi''))]
              @ [CallChat (analysis_request ?W (JStr ''hi'') results_text)])
             @ [CallGet (JStr ''https://docs/intro'')])
          @ [CallChat (compose_request (JStr ''hi'')
               (Some (case Some ?block of None \<Rightarrow> results_text | Some blob \<Rightarrow> blob)))]"
    by blast
  then have c: "snd (chat ?W hi [])
     = [CallPost init_request, CallPost tools_request, CallPost (search_request (JStr ''hi'')),
        CallChat (analysis_request ?W (JStr ''hi'') results_text),
        CallGet (JStr ''https://docs/intro''),
        CallChat (compose_request (JStr ''hi'') (Some ?block))]"
    by simp
  have "?block \<noteq> []" by simp
  with grounded
  have d: "system_content (compose_request (JStr ''hi'') (Some ?block))
     = ''You are a helpful assistant that answers questions about the Cerebras Platform.''
         @ [NL, NL]
         @ ''Use the following context from the official Cerebras documentation to answer the user's question accurately:''
         @ [NL, NL] @ ?block @ [NL, NL] @ ''Base your answer primarily on this documentation.''"
    by blast
  from a b c d show ?thesis by (intro conjI)
qed

lemma get_prop_array: "get_prop v k = Inr (JArr xs) \<Longrightarrow> truthy v"
  by (cases v) simp_all

lemma search_text_array:
  assumes "result_content searchData = JArr items"
  shows "search_text E searchData =
           (case filter_text items of
              Inl e \<Rightarrow> None
            | Inr kept \<Rightarrow> Some (join text_separator (map (\<lambda>item. js_to_string E (item_text item)) kept)))"
proof -
  from assms obtain result where r: "get_prop searchData ''result'' = Inr result"
    by (cases "get_prop searchData ''result''") (simp_all add: result_content_def)
  with assms have c: "get_prop result ''content'' = Inr (JArr items)"
    by (cases "get_prop result ''content''") (simp_all add: result_content_def)
  then have tr: "truthy result" by (rule get_prop_array)
  have "result \<noteq> JUndefined" using tr by auto
  with r have ts: "truthy searchData" by (cases searchData) auto
  from r c tr ts show ?thesis by (simp add: search_text_def)
qed

lemma sentinel_nonempty: "sentinel \<noteq> []"
  by (simp add: sentinel_def)

text \<open>
  Claim C10. When the three calls of the search are answered, the decoded answer to the
  query has an array at \<open>result.content\<close> and the texts kept from it join to the empty
  string, the search returns the empty string and not the sentinel; the handler then
  calls the composer with an absent context right after the three calls of the search,
  with the same request and the same disclosure prompt as after a transport failure.
\<close>

theorem C10_empty_text_is_treated_as_absent:
  assumes "http_post E tr init_request = Inr d1"
    and "http_post E (tr @ [CallPost init_request]) tools_request = Inr d2"
    and "http_post E (tr @ [CallPost init_request, CallPost tools_request]) (search_request msg) = Inr d3"
    and "result_content (parseSSEResponse E d3) = JArr items"
    and "filter_text items = Inr kept"
    and "join text_separator (map (\<lambda>item. js_to_string E (item_text item)) kept) = []"
    and "get_prop b ''message'' = Inr msg" and "truthy msg"
  shows "fst (searchCerebrasDocs E msg tr) = Some []
     \<and> fst (searchCerebrasDocs E msg tr) \<noteq> Some sentinel
     \<and> chat E b tr
          = respond E (getCerebrasResponse E msg None
              (tr @ [CallPost init_request, CallPost tools_request, CallPost (search_request msg)]))
     \<and> snd (chat E b tr)
          = tr @ [CallPost init_request, CallPost tools_request, CallPost (search_request msg),
                  CallChat (compose_request msg None)]
     \<and> system_content (compose_request msg None) = persona @ disclosure"
proof -
  have found: "fst (searchCerebrasDocs E msg tr) = Some []"
    using search_answered [OF assms(1-3)] search_text_array [OF assms(4), of E] assms(5,6)
    by simp
  have log: "snd (searchCerebrasDocs E msg tr)
      = tr @ [CallPost init_request, CallPost tools_request, CallPost (search_request msg)]"
    using assms(1-3) by (simp add: searchCerebrasDocs_def Let_def)
  have ctx: "final_context E msg tr
      = (None, tr @ [CallPost init_request, CallPost tools_request, CallPost (search_request msg)])"
    using final_absent [of E msg tr] found log by simp
  show ?thesis
    using found sentinel_nonempty chat_final [OF assms(7,8), of E tr]
      chat_log [OF assms(7,8), of E tr] ctx prompt_absent [of msg]
    by simp
qed

lemma sample_search_nothing:
  "parseSSEResponse (world (answers found_nothing) g l)
       (JStr (''event: message'' @ [NL] @ ''data: '' @ found_nothing))
     = JObj [(''result'', JObj [(''content'', JArr [])])]"
  by (simp add: parseSSEResponse_def world_def startsWith_def sample_codec
      found_nothing_def)

text \<open>
A run where the search service answers the query with an empty content array.
\<close>

theorem C10_witness:
  "chat (world (answers found_nothing) down (replies picks_intro ''The documentation server is unavailable.'')) hi []
     = (\<lparr>status = 200,
          sent = render (JObj [(''response'', JStr ''The documentation server is unavailable.'')])\<rparr>,
        [CallPost init_request, CallPost tools_request, CallPost (search_request (JStr ''hi'')),
         CallChat (compose_request (JStr ''hi'') None)])"
proof -
  let ?W = "world (answers found_nothing) down (replies picks_intro ''The documentation server is unavailable.'')"
  let ?d = "JStr (''event: message'' @ [NL] @ ''data: {}'')"
  let ?d3 = "JStr (''event: message'' @ [NL] @ ''data: '' @ found_nothing)"
  have p1: "http_post ?W [] init_request = Inr ?d"
    and p2: "http_post ?W ([] @ [CallPost init_request]) tools_request = Inr ?d"
    and p3: "http_post ?W ([] @ [CallPost init_request, CallPost tools_request]) (search_request (JStr ''hi'')) = Inr ?d3"
    by (simp_all add: world_def answers_def init_request_def tools_request_def search_request_def)
  have "parseSSEResponse ?W ?d3 = JObj [(''result'', JObj [(''content'', JArr [])])]"
    by (rule sample_search_nothing)
  then have shape: "result_content (parseSSEResponse ?W ?d3) = JArr []"
    by (simp only: result_content_def) simp
  have kept: "filter_text [] = Inr []"
    and empty: "join text_separator (map (\<lambda>item. js_to_string ?W (item_text item)) []) = []"
    by simp_all
  note run = C10_empty_text_is_treated_as_absent [OF p1 p2 p3 shape kept empty hi_message]
  have "getCerebrasResponse ?W (JStr ''hi'') None
          ([] @ [CallPost init_request, CallPost tools_request, CallPost (search_request (JStr ''hi''))])
      = (Inr (Some ''The documentation server is unavailable.''),
         [CallPost init_request, CallPost tools_request, CallPost (search_request (JStr ''hi'')),
          CallChat (compose_request (JStr ''hi'') None)])"
    by (simp add: getCerebrasResponse_def Let_def world_def replies_def compose_request_def)
  with run [THEN conjunct2, THEN conjunct2, THEN conjunct1]
  have "chat ?W hi []
      = respond ?W (Inr (Some ''The documentation server is unavailable.''),
         [CallPost init_request, CallPost tools_request, CallPost (search_request (JStr ''hi'')),
          CallChat (compose_request (JStr ''hi'') None)])"
    by simp
  then show ?thesis
    by (simp add: respond_def answer_body_def world_def)
qed


lemma compose_throws:
  "chat_create E t (compose_request m c) = Inl e \<Longrightarrow> fst (getCerebrasResponse E m c t) = Inl e"
  by (simp add: getCerebrasResponse_def Let_def)

lemma compose_no_choices:
  "chat_create E t (compose_request m c) = Inr cmpl \<Longrightarrow>
   choices cmpl = None \<or> choices cmpl = Some [] \<Longrightarrow>
   fst (getCerebrasResponse E m c t) = Inl invalid_response"
  by (auto simp: getCerebrasResponse_def Let_def)

lemma compose_returns:
  "chat_create E t (compose_request m c) = Inr cmpl \<Longrightarrow>
   choices cmpl = Some (first # rest) \<Longrightarrow>
   fst (getCerebrasResponse E m c t) = Inr (message_content first)"
  by (simp add: getCerebrasResponse_def Let_def)

lemma includes_str_Nil [simp]: "includes_str [] (c # cs) = False"
  by simp

lemma errorMessage_cascade:
  "errorMessage e =
     ''I apologize, but I encountered an error. '' @
     (if includes_str (error_message e) ''401''
        then ''Please check that your Cerebras API key is valid.''
      else if includes_str (error_message e) ''model''
        then ''There might be an issue with the model selection.''
      else ''Please try again later or check the server logs for more details.'')"
  by (cases "error_message e = []") (simp_all add: errorMessage_def)

text \<open>
  Claim C8. The composer throws when the model call fails and when the completion has
  no choices. Every run of the handler with a message ends in the composer, and what it
  sends is decided by the composer alone: when the composer throws, status 500 and a
  body whose \<open>response\<close> field is the text chosen from the message of the error, by
  the first test that holds: API-key guidance when it contains \<open>401\<close>, guidance on
  the model selection when it contains \<open>model\<close>, generic retry guidance otherwise;
  when the composer returns, status 200 with the answer.
\<close>

theorem C8_composition_failure_is_reported:
  assumes "get_prop b ''message'' = Inr msg" and "truthy msg"
  shows "(\<forall>m c t e. chat_create E t (compose_request m c) = Inl e
            \<longrightarrow> fst (getCerebrasResponse E m c t) = Inl e)
     \<and> (\<forall>m c t cmpl. chat_create E t (compose_request m c) = Inr cmpl
              \<and> (choices cmpl = None \<or> choices cmpl = Some [])
            \<longrightarrow> fst (getCerebrasResponse E m c t) = Inl invalid_response)
     \<and> (\<forall>e. fst (getCerebrasResponse E msg (fst (final_context E msg tr)) (snd (final_context E msg tr))) = Inl e
            \<longrightarrow> fst (chat E b tr)
                  = \<lparr>status = 500,
                     sent = json_stringify E (JObj [(''error'', JStr ''Failed to process request''),
                                                    (''response'', JStr (errorMessage e))])\<rparr>)
     \<and> (\<forall>r. fst (getCerebrasResponse E msg (fst (final_context E msg tr)) (snd (final_context E msg tr))) = Inr r
            \<longrightarrow> fst (chat E b tr) = \<lparr>status = 200, sent = json_stringify E (answer_body r)\<rparr>)
     \<and> (\<forall>e. errorMessage e =
            ''I apologize, but I encountered an error. '' @
            (if includes_str (error_message e) ''401''
               then ''Please check that your Cerebras API key is valid.''
             else if includes_str (error_message e) ''model''
               then ''There might be an issue with the model selection.''
             else ''Please try again later or check the server logs for more details.''))"
proof (intro conjI allI impI)
  fix m c t e assume "chat_create E t (compose_request m c) = Inl e"
  then show "fst (getCerebrasResponse E m c t) = Inl e"
    by (rule compose_throws)
next
  fix m c t cmpl
  assume "chat_create E t (compose_request m c) = Inr cmpl
            \<and> (choices cmpl = None \<or> choices cmpl = Some [])"
  then show "fst (getCerebrasResponse E m c t) = Inl invalid_response"
    using compose_no_choices by blast
next
  fix e
  assume "fst (getCerebrasResponse E msg (fst (final_context E msg tr)) (snd (final_context E msg tr))) = Inl e"
  then show "fst (chat E b tr)
                  = \<lparr>status = 500,
                     sent = json_stringify E (JObj [(''error'', JStr ''Failed to process request''),
                                                    (''response'', JStr (errorMessage e))])\<rparr>"
    using chat_final [OF assms, of E tr]
    by (simp add: respond_def error_body_def split: prod.splits sum.splits)
next
  fix r
  assume "fst (getCerebrasResponse E msg (fst (final_context E msg tr)) (snd (final_context E msg tr))) = Inr r"
  then show "fst (chat E b tr) = \<lparr>status = 200, sent = json_stringify E (answer_body r)\<rparr>"
    using chat_final [OF assms, of E tr]
    by (simp add: respond_def split: prod.splits sum.splits)
next
  fix e show "errorMessage e =
            ''I apologize, but I encountered an error. '' @
            (if includes_str (error_message e) ''401''
               then ''Please check that your Cerebras API key is valid.''
             else if includes_str (error_message e) ''model''
               then ''There might be an issue with the model selection.''
             else ''Please try again later or check the server logs for more details.'')"
    by (rule errorMessage_cascade)
qed

text \<open>
A run where the model service refuses the call with a 401 error.
\<close>

theorem C8_witness:
  "fst (chat (world down down (rejects ''401 Incorrect API key provided'')) hi [])
     = \<lparr>status = 500,
        sent = render (JObj [(''error'', JStr ''Failed to process request''),
                             (''response'', JStr ''I apologize, but I encountered an error. Please check that your Cerebras API key is valid.'')])\<rparr>"
proof -
  let ?W = "world down down (rejects ''401 Incorrect API key provided'')"
  let ?e = "Error ''401 Incorrect API key provided''"
  have "fst (getCerebrasResponse ?W (JStr ''hi'') (fst (final_context ?W (JStr ''hi'') []))
               (snd (final_context ?W (JStr ''hi'') []))) = Inl ?e"
    by (simp add: getCerebrasResponse_def Let_def world_def rejects_def)
  with C8_composition_failure_is_reported [OF hi_message, of ?W "[]"]
  have "fst (chat ?W hi [])
      = \<lparr>status = 500,
         sent = json_stringify ?W (JObj [(''error'', JStr ''Failed to process request''),
                                         (''response'', JStr (errorMessage ?e))])\<rparr>"
    by blast
  moreover have "errorMessage ?e
      = ''I apologize, but I encountered an error. Please check that your Cerebras API key is valid.''"
    by (simp add: errorMessage_def startsWith_def)
  ultimately show ?thesis
    by (simp add: world_def)
qed

section \<open>The two entry points agree\<close>

lemma handler_final:
  assumes "json_parse E src = Inr v" and "get_prop v ''message'' = Inr msg" and "truthy msg"
  shows "handler E (post_event src) tr
           = respond_netlify E (case final_context E msg tr of (ctx, t) \<Rightarrow> getCerebrasResponse E msg ctx t)"
proof -
  obtain sr tr1 where s: "searchCerebrasDocs E msg tr = (sr, tr1)"
    by (cases "searchCerebrasDocs E msg tr")
  obtain urls tr2 where a: "analyzeSearchResults E msg (the sr) tr1 = (urls, tr2)"
    by (cases "analyzeSearchResults E msg (the sr) tr1")
  obtain fc tr3 where f: "fetchFullContent E urls tr2 = (fc, tr3)"
    by (cases "fetchFullContent E urls tr2")
  show ?thesis
  proof (cases "sr = None \<or> sr = Some []")
    case True
    with assms s show ?thesis
      by (simp add: handler_def post_event_def final_context_def respond_netlify_def)
  next
    case False
    then obtain x where x: "sr = Some x" "x \<noteq> []"
      by (cases sr) auto
    with assms s a f show ?thesis
      by (cases "urls = []")
         (simp_all add: handler_def post_event_def final_context_def respond_netlify_def)
  qed
qed

lemma respond_same: "seen_express (respond E outcome) = seen_netlify (respond_netlify E outcome)"
  by (simp add: seen_express_def seen_netlify_def respond_def respond_netlify_def failure_def
      success_def split: prod.splits sum.splits)

lemma handlers_agree:
  assumes "json_parse E src = Inr (JObj kvs)"
  shows "seen_express (chat E (JObj kvs) tr) = seen_netlify (handler E (post_event src) tr)"
proof -
  obtain msg where m: "get_prop (JObj kvs) ''message'' = Inr msg"
    by simp
  show ?thesis
  proof (cases "truthy msg")
    case True
    show ?thesis
      unfolding chat_final [OF m True] handler_final [OF assms m True] by (rule respond_same)
  next
    case False
    with assms m show ?thesis
      by (simp add: chat_def handler_def post_event_def seen_express_def seen_netlify_def)
  qed
qed

text \<open>
  Claim C9. For every request body that decodes to an object, hence for every message,
  the long-lived server and the serverless function send the same status and the same
  body after the same outbound calls: the answer of the pipeline on success, the same
  error body with status 500 when the composer throws, and the same status 400 when the
  message is missing. Both answer an \<open>OPTIONS\<close> preflight with a success status and an
  empty body without calling the pipeline: the serverless function with 200, the server
  through its CORS middleware with 204.
\<close>

theorem C9_entry_points_agree:
  "(\<forall>src kvs. json_parse E src = Inr (JObj kvs) \<longrightarrow>
        map_option seen_express (app E (post_chat (JObj kvs)) tr)
          = Some (seen_netlify (handler E (post_event src) tr)))
   \<and> (\<forall>path v. app E \<lparr>req_method = ''OPTIONS'', req_path = path, req_body = v\<rparr> tr
          = Some (\<lparr>status = 204, sent = []\<rparr>, tr))
   \<and> (\<forall>src. seen_netlify (handler E \<lparr>httpMethod = ''OPTIONS'', event_body = src\<rparr> tr)
          = (200, [], tr))"
proof (intro conjI allI impI)
  fix src kvs assume "json_parse E src = Inr (JObj kvs)"
  then show "map_option seen_express (app E (post_chat (JObj kvs)) tr)
          = Some (seen_netlify (handler E (post_event src) tr))"
    by (simp add: app_def post_chat_def handlers_agree)
next
  fix path v
  show "app E \<lparr>req_method = ''OPTIONS'', req_path = path, req_body = v\<rparr> tr
          = Some (\<lparr>status = 204, sent = []\<rparr>, tr)"
    by (simp add: app_def cors_preflight_def)
next
  fix src
  show "seen_netlify (handler E \<lparr>httpMethod = ''OPTIONS'', event_body = src\<rparr> tr) = (200, [], tr)"
    by (simp add: handler_def seen_netlify_def)
qed

text \<open>
  The body \<open>{"message":"hi"}\<close> with the search service down and a model service that
  refuses the call: both entry points send status 500 with the guidance on the model
  selection.
\<close>

theorem C9_witness:
  \<open>json_parse (world down down (rejects ''model not found'')) hi_text = Inr hi
   \<and> map_option seen_express (app (world down down (rejects ''model not found'')) (post_chat hi) [])
      = Some (seen_netlify (handler (world down down (rejects ''model not found'')) (post_event hi_text) []))
   \<and> map_option seen_express (app (world down down (rejects ''model not found'')) (post_chat hi) [])
      = Some (500,
              render (JObj [(''error'', JStr ''Failed to process request''),
                            (''response'', JStr ''I apologize, but I encountered an error. There might be an issue with the model selection.'')]),
              [CallPost init_request, CallChat (compose_request (JStr ''hi'') None)])\<close>
proof -
  let ?W = "world down down (rejects ''model not found'')"
  have p: "json_parse ?W hi_text = Inr (JObj [(''message'', JStr ''hi'')])"
    by (simp add: world_def sample_codec hi_def)
  with C9_entry_points_agree [of ?W "[]"]
  have same: \<open>map_option seen_express (app ?W (post_chat (JObj [(''message'', JStr ''hi'')])) [])
      = Some (seen_netlify (handler ?W (post_event hi_text) []))\<close>
    by blast
  have ctx: "final_context ?W (JStr ''hi'') [] = (None, [CallPost init_request])"
    using final_absent [of ?W "JStr ''hi''" "[]"] by (simp add: sample_search_down)
  have out: "getCerebrasResponse ?W (JStr ''hi'') None [CallPost init_request]
      = (Inl (Error ''model not found''), [CallPost init_request, CallChat (compose_request (JStr ''hi'') None)])"
    by (simp add: getCerebrasResponse_def Let_def world_def rejects_def)
  have wording: "errorMessage (Error ''model not found'')
      = ''I apologize, but I encountered an error. There might be an issue with the model selection.''"
    by (simp add: errorMessage_def startsWith_def)
  have "chat ?W hi [] = respond ?W (Inl (Error ''model not found''),
      [CallPost init_request, CallChat (compose_request (JStr ''hi'') None)])"
    using chat_final [OF hi_message, of ?W "[]"] ctx out by simp
  then have "map_option seen_express (app ?W (post_chat hi) [])
      = Some (500,
              json_stringify ?W (JObj [(''error'', JStr ''Failed to process request''),
                            (''response'', JStr ''I apologize, but I encountered an error. There might be an issue with the model selection.'')]),
              [CallPost init_request, CallChat (compose_request (JStr ''hi'') None)])"
    by (simp add: app_def post_chat_def respond_def seen_express_def error_body_def wording)
  with p same show ?thesis
    by (simp add: hi_def world_def)
qed

end
